theory Spec2Isabelle
  imports Complex_Main
begin

section \<open>Letter grades\<close>

text \<open>
  The analyzers and the aggregation controller label a numeric score with one of six
  letters. A JavaScript number is modelled by the real value it holds; the not-a-number
  value, where a computation can produce it, is an explicit \<open>None\<close> (see the cookie score
  below). Comparisons of a number with an integer threshold are exact.
\<close>

datatype grade = F | D | C | B | A | APlus

text \<open>The order \<open>F < D < C < B < A < A+\<close>, as a rank.\<close>

fun grade_rank :: "grade \<Rightarrow> nat" where
  "grade_rank F = 0"
| "grade_rank D = 1"
| "grade_rank C = 2"
| "grade_rank B = 3"
| "grade_rank A = 4"
| "grade_rank APlus = 5"

text \<open>
  \<^verbatim>\<open>AnalysisController._calculateGrade(score)\<close>:
  \<^verbatim>\<open>
    if (score >= 90) return 'A+';
    if (score >= 80) return 'A';
    if (score >= 70) return 'B';
    if (score >= 60) return 'C';
    if (score >= 50) return 'D';
    return 'F';
  \<close>
\<close>

definition calculateGrade :: "real \<Rightarrow> grade" where
  "calculateGrade score =
     (if score \<ge> 90 then APlus
      else if score \<ge> 80 then A
      else if score \<ge> 70 then B
      else if score \<ge> 60 then C
      else if score \<ge> 50 then D
      else F)"

text \<open>\<^verbatim>\<open>CookieAnalyzer._calculateGrade(score)\<close>, a separate copy in the cookie analyzer.\<close>

definition cookie_calculateGrade :: "real \<Rightarrow> grade" where
  "cookie_calculateGrade score =
     (if score \<ge> 90 then APlus
      else if score \<ge> 80 then A
      else if score \<ge> 70 then B
      else if score \<ge> 60 then C
      else if score \<ge> 50 then D
      else F)"

text \<open>\<^verbatim>\<open>HeaderAnalyzer._calculateGrade(score)\<close>, a separate copy in the header analyzer.\<close>

definition header_calculateGrade :: "real \<Rightarrow> grade" where
  "header_calculateGrade score =
     (if score \<ge> 90 then APlus
      else if score \<ge> 80 then A
      else if score \<ge> 70 then B
      else if score \<ge> 60 then C
      else if score \<ge> 50 then D
      else F)"

section \<open>Double-precision arithmetic\<close>

text \<open>
  JavaScript computes with IEEE 754 doubles: every product, quotient, sum and difference
  is the exact result rounded to the nearest number with a 53-bit significand, a tie
  going to the even significand, and a decimal literal such as \<^verbatim>\<open>0.35\<close> denotes the double
  nearest to it. The scoring code below is modelled with this rounding written out.
  Overflow and subnormal numbers are left out: the scores stay far inside the normal
  range.
\<close>

text \<open>The binary exponent of a positive number: \<open>2 ^ expo x \<le> x < 2 ^ (expo x + 1)\<close>.\<close>

function expo :: "real \<Rightarrow> int" where
  "expo x = (if x \<le> 0 then 0
             else if x < 1 then expo (2 * x) - 1
             else if 2 \<le> x then expo (x / 2) + 1
             else 0)"
  by pat_completeness auto
termination
proof (relation "measure (\<lambda>x. nat \<bar>\<lfloor>log 2 x\<rfloor>\<bar>)")
  show "wf (measure (\<lambda>x. nat \<bar>\<lfloor>log 2 x\<rfloor>\<bar>))" by simp
next
  fix x :: real
  assume "\<not> x \<le> 0" "x < 1"
  then have x: "0 < x" "x < 1" by simp_all
  have "log 2 (2 * x) = 1 + log 2 x" using x by (simp add: log_mult)
  then have f: "\<lfloor>log 2 (2 * x)\<rfloor> = \<lfloor>log 2 x\<rfloor> + 1" by simp
  have "log 2 x < 0" using x by simp
  then have "\<lfloor>log 2 x\<rfloor> < 0" by linarith
  with f have "nat \<bar>\<lfloor>log 2 (2 * x)\<rfloor>\<bar> < nat \<bar>\<lfloor>log 2 x\<rfloor>\<bar>" by linarith
  then show "(2 * x, x) \<in> measure (\<lambda>x. nat \<bar>\<lfloor>log 2 x\<rfloor>\<bar>)" unfolding in_measure .
next
  fix x :: real
  assume "\<not> x \<le> 0" "\<not> x < 1" "2 \<le> x"
  then have x: "2 \<le> x" by simp
  have "log 2 (x / 2) = log 2 x - 1" using x by (simp add: log_divide)
  then have f: "\<lfloor>log 2 (x / 2)\<rfloor> = \<lfloor>log 2 x\<rfloor> - 1" by simp
  have "1 \<le> log 2 x" using x by (simp add: le_log_iff)
  then have "1 \<le> \<lfloor>log 2 x\<rfloor>" by linarith
  with f have "nat \<bar>\<lfloor>log 2 (x / 2)\<rfloor>\<bar> < nat \<bar>\<lfloor>log 2 x\<rfloor>\<bar>" by linarith
  then show "(x / 2, x) \<in> measure (\<lambda>x. nat \<bar>\<lfloor>log 2 x\<rfloor>\<bar>)" unfolding in_measure .
qed

declare expo.simps [simp del]

text \<open>Rounding to the nearest integer, a tie going to the even one.\<close>

definition round_even :: "real \<Rightarrow> int" where
  "round_even y =
     (let f = \<lfloor>y\<rfloor>; d = y - of_int f
      in if d < 1 / 2 then f else if 1 / 2 < d then f + 1 else if even f then f else f + 1)"

text \<open>
  The double nearest to \<open>x\<close>: with \<open>e = expo \<bar>x\<bar> - 52\<close> the doubles around \<open>x\<close> are the
  integer multiples of \<open>2 ^ e\<close>.
\<close>

definition fl :: "real \<Rightarrow> real" where
  "fl x = (if x = 0 then 0
           else let e = expo \<bar>x\<bar> - 52
                in of_int (round_even (x / 2 powi e)) * 2 powi e)"

section \<open>Findings and category results\<close>

text \<open>
  A finding carries a type tag and a severity; the source writes both as strings. The
  message, impact and solution texts play no part in scoring and are left out.
\<close>

datatype severity = Critical | High | Medium | Low | Info | Warning | Error

record finding =
  ftype :: string
  fseverity :: severity

text \<open>
  What the aggregator reads from a category result: the \<open>score\<close> field, absent or
  not-a-number as \<open>None\<close>, and the \<open>vulnerabilities\<close> field, an absent one being the
  empty list (the source reads it as \<^verbatim>\<open>x.vulnerabilities || []\<close>).
\<close>

record category_result =
  cat_score :: "real option"
  cat_vulnerabilities :: "finding list"

record analysis =
  an_ssl :: category_result
  an_headers :: category_result
  an_cookies :: category_result
  an_html :: category_result
  an_isHttps :: bool
  an_vulnerabilities :: "finding list"

section \<open>Aggregation\<close>

text \<open>\<^verbatim>\<open>x.score || 0\<close>: an absent, not-a-number or zero score reads as 0.\<close>

definition score_or_zero :: "category_result \<Rightarrow> real" where
  "score_or_zero c = (case cat_score c of None \<Rightarrow> 0 | Some v \<Rightarrow> v)"

text \<open>
  \<^verbatim>\<open>Math.round\<close> returns the integer nearest to its argument, a half going up; it is
  exact on the double it is given.
\<close>

definition Math_round :: "real \<Rightarrow> int" where
  "Math_round x = \<lfloor>x + 1 / 2\<rfloor>"

text \<open>
  \<^verbatim>\<open>_consolidateAnalysis\<close>: the findings of the four categories are concatenated in the
  order ssl, headers, cookies, html.
\<close>

definition consolidateAnalysis :: "analysis \<Rightarrow> analysis" where
  "consolidateAnalysis a =
     a\<lparr>an_vulnerabilities :=
          cat_vulnerabilities (an_ssl a) @ cat_vulnerabilities (an_headers a) @
          cat_vulnerabilities (an_cookies a) @ cat_vulnerabilities (an_html a)\<rparr>"

definition criticalCount :: "finding list \<Rightarrow> nat" where
  "criticalCount vs = length (filter (\<lambda>v. fseverity v = Critical) vs)"

text \<open>
  \<^verbatim>\<open>_calculateOverallScore\<close>. The weighted sum starts at 0 and takes, in the order of the
  weight table (ssl 0.25, headers 0.35, cookies 0.25, html 0.15), one
  \<^verbatim>\<open>weightedScore += scores[category] * weight\<close> after the other: a rounded product added
  by a rounded sum.
\<close>

definition weightedScore :: "analysis \<Rightarrow> real" where
  "weightedScore a =
     (let w0 = 0;
          w1 = fl (w0 + fl (score_or_zero (an_ssl a) * fl 0.25));
          w2 = fl (w1 + fl (score_or_zero (an_headers a) * fl 0.35));
          w3 = fl (w2 + fl (score_or_zero (an_cookies a) * fl 0.25));
          w4 = fl (w3 + fl (score_or_zero (an_html a) * fl 0.15))
      in w4)"

text \<open>
  Then \<^verbatim>\<open>weightedScore -= Math.min(criticalCount * 10, 30)\<close>, then
  \<^verbatim>\<open>weightedScore -= 15\<close> when the URL is not HTTPS, each a rounded difference, and the
  result is \<^verbatim>\<open>Math.max(0, Math.min(100, Math.round(weightedScore)))\<close>. The count of
  findings and its multiple of ten are small integers, which doubles hold exactly.
\<close>

definition calculateOverallScore :: "analysis \<Rightarrow> int" where
  "calculateOverallScore a =
     (let w1 = fl (weightedScore a - real (min (criticalCount (an_vulnerabilities a) * 10) 30));
          w2 = (if \<not> an_isHttps a then fl (w1 - 15) else w1)
      in max 0 (min 100 (Math_round w2)))"

text \<open>
  The two steps as \<^verbatim>\<open>analyzeUrl\<close> runs them on the four settled category results:
  consolidate, then score.
\<close>

definition overallScore ::
  "category_result \<Rightarrow> category_result \<Rightarrow> category_result \<Rightarrow> category_result \<Rightarrow> bool \<Rightarrow> int" where
  "overallScore ssl headers cookies html https =
     calculateOverallScore (consolidateAnalysis
       \<lparr>an_ssl = ssl, an_headers = headers, an_cookies = cookies, an_html = html,
        an_isHttps = https, an_vulnerabilities = []\<rparr>)"

section \<open>Strings\<close>

text \<open>
  JavaScript strings are modelled as lists of 8-bit characters; the inputs of interest
  (URLs, host names, cookie names, error codes) are ASCII.
\<close>

definition startsWith :: "string \<Rightarrow> string \<Rightarrow> bool" where
  "startsWith s p = (take (length p) s = p)"

fun str_includes :: "string \<Rightarrow> string \<Rightarrow> bool" where
  "str_includes [] sub = (sub = [])"
| "str_includes (c # cs) sub = (startsWith (c # cs) sub \<or> str_includes cs sub)"

text \<open>\<^verbatim>\<open>toLowerCase\<close> on ASCII: the 26 capital letters map to their small letters.\<close>

definition lower_char :: "char \<Rightarrow> char" where
  "lower_char c =
     (case map_of (zip ''ABCDEFGHIJKLMNOPQRSTUVWXYZ'' ''abcdefghijklmnopqrstuvwxyz'') c of
        None \<Rightarrow> c | Some l \<Rightarrow> l)"

definition toLowerCase :: "string \<Rightarrow> string" where
  "toLowerCase s = map lower_char s"

text \<open>\<^verbatim>\<open>s.split(d)\<close> for a one-character separator: never empty, \<^verbatim>\<open>''.split('.')\<close> is \<^verbatim>\<open>['']\<close>.\<close>

fun split_on :: "char \<Rightarrow> string \<Rightarrow> string list" where
  "split_on d [] = [[]]"
| "split_on d (c # cs) =
     (if c = d then [] # split_on d cs
      else (case split_on d cs of p # ps \<Rightarrow> (c # p) # ps | [] \<Rightarrow> [[c]]))"

definition is_digit :: "char \<Rightarrow> bool" where
  "is_digit c = (let n = (of_char c :: nat) in 48 \<le> n \<and> n \<le> 57)"

definition is_alpha :: "char \<Rightarrow> bool" where
  "is_alpha c = (let n = (of_char c :: nat) in (65 \<le> n \<and> n \<le> 90) \<or> (97 \<le> n \<and> n \<le> 122))"

definition is_alnum :: "char \<Rightarrow> bool" where
  "is_alnum c = (is_alpha c \<or> is_digit c)"

definition is_hex :: "char \<Rightarrow> bool" where
  "is_hex c = (let n = (of_char c :: nat) in
     is_digit c \<or> (65 \<le> n \<and> n \<le> 70) \<or> (97 \<le> n \<and> n \<le> 102))"

section \<open>HTML analysis\<close>

text \<open>
  \<^verbatim>\<open>_analyzeHTML\<close> reads the markup through an HTML parser; the model takes what the
  function reads from the parsed document: per \<^verbatim>\<open>form\<close> element its \<^verbatim>\<open>method\<close> attribute
  and whether it contains an \<^verbatim>\<open>input[type="password"]\<close>, per \<^verbatim>\<open>script\<close> element its
  \<^verbatim>\<open>src\<close> attribute, and whether a charset meta tag is present.
\<close>

record html_form =
  form_method :: "string option"
  form_hasPasswordField :: bool

record html_document =
  doc_forms :: "html_form list"
  doc_scripts :: "string option list"
  doc_hasCharset :: bool

record html_analysis =
  html_score :: int
  html_vulnerabilities :: "finding list"

text \<open>\<^verbatim>\<open>$form.attr('method')?.toLowerCase() || 'get'\<close>\<close>

definition form_method_of :: "html_form \<Rightarrow> string" where
  "form_method_of f =
     (case form_method f of None \<Rightarrow> ''get''
      | Some m \<Rightarrow> if toLowerCase m = [] then ''get'' else toLowerCase m)"

text \<open>
  One iteration of the loop over forms: 20 off for a password field on a page that is not
  \<^verbatim>\<open>https://\<close>, 25 off for a password field in a GET form.
\<close>

definition analyzeForm :: "string \<Rightarrow> html_analysis \<Rightarrow> html_form \<Rightarrow> html_analysis" where
  "analyzeForm url a f =
     (let a1 = (if form_hasPasswordField f \<and> \<not> startsWith url ''https://''
                then \<lparr>html_score = html_score a - 20,
                      html_vulnerabilities = html_vulnerabilities a @
                        [\<lparr>ftype = ''form_password_no_https'', fseverity = Critical\<rparr>]\<rparr>
                else a);
          a2 = (if form_hasPasswordField f \<and> form_method_of f = ''get''
                then \<lparr>html_score = html_score a1 - 25,
                      html_vulnerabilities = html_vulnerabilities a1 @
                        [\<lparr>ftype = ''password_in_get'', fseverity = Critical\<rparr>]\<rparr>
                else a1)
      in a2)"

text \<open>
  One iteration of the loop over scripts: a script with a non-empty \<^verbatim>\<open>src\<close> that is
  external, not HTTPS and starts with \<^verbatim>\<open>http://\<close> costs 15.
\<close>

definition analyzeScript :: "string \<Rightarrow> html_analysis \<Rightarrow> string option \<Rightarrow> html_analysis" where
  "analyzeScript url a src =
     (case src of
        None \<Rightarrow> a
      | Some s \<Rightarrow>
          if s = [] then a
          else if (\<not> startsWith s ''/'' \<and> \<not> startsWith s url) \<and>
                  \<not> startsWith s ''https://'' \<and> startsWith s ''http://''
          then \<lparr>html_score = html_score a - 15,
                html_vulnerabilities = html_vulnerabilities a @
                  [\<lparr>ftype = ''script_http_external'', fseverity = High\<rparr>]\<rparr>
          else a)"

text \<open>\<^verbatim>\<open>_analyzeHTML\<close>: base score 80; the result is returned as it stands.\<close>

definition analyzeHTML :: "html_document \<Rightarrow> string \<Rightarrow> html_analysis" where
  "analyzeHTML doc url =
     (let a0 = \<lparr>html_score = 80, html_vulnerabilities = []\<rparr>;
          a1 = foldl (analyzeForm url) a0 (doc_forms doc);
          a2 = foldl (analyzeScript url) a1 (doc_scripts doc)
      in if \<not> doc_hasCharset doc
         then \<lparr>html_score = html_score a2 - 5,
               html_vulnerabilities = html_vulnerabilities a2 @
                 [\<lparr>ftype = ''missing_charset'', fseverity = Low\<rparr>]\<rparr>
         else a2)"

section \<open>Cookie analysis\<close>

text \<open>
  A cookie as the Set-Cookie parser returns it. An attribute that is absent is \<open>None\<close>;
  \<open>c_maxAge\<close> is in seconds (absent or unparsable as \<open>None\<close>), \<open>c_expires\<close> is a time in
  milliseconds.
\<close>

record cookie =
  c_name :: string
  c_value :: string
  c_domain :: "string option"
  c_path :: "string option"
  c_secure :: bool
  c_httpOnly :: bool
  c_sameSite :: "string option"
  c_maxAge :: "int option"
  c_expires :: "int option"

text \<open>\<^verbatim>\<open>COOKIE_SECURITY\<close> of the security configuration.\<close>

definition COOKIE_SECURITY_dangerousNames :: "string list" where
  "COOKIE_SECURITY_dangerousNames = [''password'', ''token'', ''session'', ''auth'', ''csrf'']"

definition COOKIE_SECURITY_maxAge :: int where
  "COOKIE_SECURITY_maxAge = 86400000"

text \<open>
  \<^verbatim>\<open>_isSensitiveCookie(name)\<close>: fourteen case-insensitive patterns, each a plain substring
  except \<^verbatim>\<open>/api[_-]?key/i\<close>, or one of the configured dangerous names inside the
  lower-cased name.
\<close>

definition isSensitiveCookie :: "string \<Rightarrow> bool" where
  "isSensitiveCookie name =
     (let n = toLowerCase name in
      (\<exists>p \<in> set [''session'', ''auth'', ''token'', ''csrf'', ''password'', ''login'', ''user'',
                   ''admin'', ''secure'', ''private'', ''jwt'', ''bearer'', ''oauth'',
                   ''apikey'', ''api_key'', ''api-key'']. str_includes n p)
      \<or> (\<exists>d \<in> set COOKIE_SECURITY_dangerousNames. str_includes n d))"

text \<open>\<^verbatim>\<open>_isTrackingCookie(name)\<close>: five anchored and seven unanchored patterns.\<close>

definition isTrackingCookie :: "string \<Rightarrow> bool" where
  "isTrackingCookie name =
     (let n = toLowerCase name in
      (\<exists>p \<in> set [''_ga'', ''_gtm'', ''_gid'', ''_fbp'', ''_fbc'']. startsWith n p)
      \<or> (\<exists>p \<in> set [''track'', ''analytics'', ''pixel'', ''campaign'', ''utm_'', ''visitor'',
                     ''affiliate'']. str_includes n p))"

text \<open>Whether the string holds a run of at least \<open>k\<close> more alphanumeric characters.\<close>

fun has_alnum_run :: "nat \<Rightarrow> string \<Rightarrow> bool" where
  "has_alnum_run 0 s = True"
| "has_alnum_run (Suc k) [] = False"
| "has_alnum_run (Suc k) (c # cs) = (is_alnum c \<and> has_alnum_run k cs)"

fun hasRandomChars :: "string \<Rightarrow> bool" where
  "hasRandomChars [] = False"
| "hasRandomChars (c # cs) = (has_alnum_run 20 (c # cs) \<or> hasRandomChars cs)"

definition is_base64_char :: "char \<Rightarrow> bool" where
  "is_base64_char c = (is_alnum c \<or> c = CHR ''+'' \<or> c = CHR ''/'')"

text \<open>
  \<^verbatim>\<open>_isEncodedValue(value)\<close>: \<^verbatim>\<open>/^[A-Za-z0-9+/]+=*$/\<close> and longer than 10, or
  \<^verbatim>\<open>/^[0-9a-fA-F]+$/\<close> and longer than 16, or \<^verbatim>\<open>/[A-Za-z0-9]{20,}/\<close> somewhere.
\<close>

definition isEncodedValue :: "string \<Rightarrow> bool" where
  "isEncodedValue v =
     ((takeWhile is_base64_char v \<noteq> [] \<and> list_all (\<lambda>c. c = CHR ''='') (dropWhile is_base64_char v)
        \<and> length v > 10)
      \<or> (v \<noteq> [] \<and> list_all is_hex v \<and> length v > 16)
      \<or> hasRandomChars v)"

text \<open>\<^verbatim>\<open>_calculateCookieDuration(cookie)\<close> in milliseconds, \<open>now\<close> being the clock.\<close>

definition calculateCookieDuration :: "int \<Rightarrow> cookie \<Rightarrow> int" where
  "calculateCookieDuration now c =
     (case c_maxAge c of
        Some m \<Rightarrow> if m \<noteq> 0 then m * 1000
                  else (case c_expires c of Some e \<Rightarrow> e - now | None \<Rightarrow> 0)
      | None \<Rightarrow> (case c_expires c of Some e \<Rightarrow> e - now | None \<Rightarrow> 0))"

datatype security_level = LevelCritical | LevelInsecure | LevelModerate | LevelSecure

record cookie_analysis =
  ca_name :: string
  ca_value :: string
  ca_domain :: "string option"
  ca_path :: string
  ca_secure :: bool
  ca_httpOnly :: bool
  ca_sameSite :: "string option"
  ca_hasExpiration :: bool
  ca_isSession :: bool
  ca_isPersistent :: bool
  ca_isSensitive :: bool
  ca_vulnerabilities :: "finding list"
  ca_securityLevel :: security_level

text \<open>\<^verbatim>\<open>cookie.maxAge || cookie.expires\<close> as a truth value.\<close>

definition hasLifetime :: "cookie \<Rightarrow> bool" where
  "hasLifetime c = ((case c_maxAge c of Some m \<Rightarrow> m \<noteq> 0 | None \<Rightarrow> False) \<or> c_expires c \<noteq> None)"

text \<open>An optional string as a truth value: absent and empty are both false.\<close>

definition truthy :: "string option \<Rightarrow> bool" where
  "truthy x = (case x of None \<Rightarrow> False | Some v \<Rightarrow> v \<noteq> [])"

text \<open>
  The findings of \<^verbatim>\<open>_analyzeCookieValue\<close>; the last test is for one of the characters
  \<open><\<close>, \<open>>\<close>, \<open>&\<close>, the double quote (0x22) and the single quote (0x27).
\<close>

definition analyzeCookieValue :: "bool \<Rightarrow> string \<Rightarrow> finding list" where
  "analyzeCookieValue sensitive v =
     (if \<not> isEncodedValue v \<and> sensitive
      then [\<lparr>ftype = ''unencoded_sensitive_cookie'', fseverity = Medium\<rparr>] else [])
     @ (if length v > 4096 then [\<lparr>ftype = ''oversized_cookie'', fseverity = Low\<rparr>] else [])
     @ (if \<exists>c \<in> set v. c \<in> set ''<>&'' \<or> c = CHR 0x22 \<or> c = CHR 0x27
        then [\<lparr>ftype = ''suspicious_characters'', fseverity = Low\<rparr>] else [])"

text \<open>
  The findings of \<^verbatim>\<open>_analyzeCookieScope\<close>. The function first builds \<^verbatim>\<open>new URL(url)\<close>,
  which throws on a string that is not a URL; \<open>url_ok\<close> says whether it succeeds, and
  \<open>None\<close> is the exception.
\<close>

definition analyzeCookieScope :: "bool \<Rightarrow> bool \<Rightarrow> string option \<Rightarrow> string \<Rightarrow> finding list option" where
  "analyzeCookieScope url_ok sensitive domain path =
     (if \<not> url_ok then None
      else Some (
        (case domain of
           None \<Rightarrow> []
         | Some d \<Rightarrow>
             if d = [] then []
             else if length (split_on CHR ''.'' (if startsWith d ''.'' then tl d else d)) \<le> 2
             then [\<lparr>ftype = ''overly_broad_domain'', fseverity = Low\<rparr>] else [])
        @ (if path = ''/'' \<and> sensitive
           then [\<lparr>ftype = ''broad_path_sensitive_cookie'', fseverity = Medium\<rparr>] else [])))"

text \<open>\<^verbatim>\<open>_determineCookieSecurityLevel\<close>.\<close>

definition determineCookieSecurityLevel :: "bool \<Rightarrow> bool \<Rightarrow> bool \<Rightarrow> finding list \<Rightarrow> security_level" where
  "determineCookieSecurityLevel hasSecure hasHttpOnly hasSameSite vs =
     (if length (filter (\<lambda>v. fseverity v = Critical) vs) > 0 then LevelCritical
      else if length (filter (\<lambda>v. fseverity v = High) vs) > 0 then LevelInsecure
      else if hasSecure \<and> hasHttpOnly \<and> hasSameSite then LevelSecure
      else if hasSecure \<and> hasHttpOnly then LevelModerate
      else LevelInsecure)"

text \<open>
  The findings of the flag checks at the head of \<^verbatim>\<open>_analyzeSingleCookie\<close>: Secure,
  HttpOnly, SameSite, and the lifetime of a persistent cookie.
\<close>

definition flagFindings :: "int \<Rightarrow> cookie \<Rightarrow> finding list" where
  "flagFindings now c =
     (let isSensitive = isSensitiveCookie (c_name c);
          sameSite = (if truthy (c_sameSite c) then c_sameSite c else None)
      in (if \<not> c_secure c
          then [\<lparr>ftype = ''missing_secure_flag'',
                 fseverity = (if isSensitive then Critical else High)\<rparr>] else [])
       @ (if \<not> c_httpOnly c
          then [\<lparr>ftype = ''missing_httponly_flag'',
                 fseverity = (if isSensitive then High else Medium)\<rparr>] else [])
       @ (case sameSite of
            None \<Rightarrow> [\<lparr>ftype = ''missing_samesite'', fseverity = Medium\<rparr>]
          | Some v \<Rightarrow> if toLowerCase v = ''none'' \<and> \<not> c_secure c
                      then [\<lparr>ftype = ''samesite_none_without_secure'', fseverity = High\<rparr>]
                      else [])
       @ (if hasLifetime c \<and> calculateCookieDuration now c > COOKIE_SECURITY_maxAge
          then [\<lparr>ftype = ''excessive_cookie_lifetime'', fseverity = Medium\<rparr>] else []))"

text \<open>\<^verbatim>\<open>_analyzeSingleCookie(cookie, url)\<close>; \<open>None\<close> when the URL constructor throws.\<close>

definition analyzeSingleCookie :: "bool \<Rightarrow> int \<Rightarrow> cookie \<Rightarrow> cookie_analysis option" where
  "analyzeSingleCookie url_ok now c =
     (let isSensitive = isSensitiveCookie (c_name c);
          path = (case c_path c of None \<Rightarrow> ''/'' | Some p \<Rightarrow> if p = [] then ''/'' else p);
          sameSite = (if truthy (c_sameSite c) then c_sameSite c else None);
          vs1 = flagFindings now c @ analyzeCookieValue isSensitive (c_value c)
      in case analyzeCookieScope url_ok isSensitive (c_domain c) path of
           None \<Rightarrow> None
         | Some vs2 \<Rightarrow>
             Some \<lparr>ca_name = c_name c, ca_value = c_value c, ca_domain = c_domain c,
                   ca_path = path, ca_secure = c_secure c, ca_httpOnly = c_httpOnly c,
                   ca_sameSite = sameSite,
                   ca_hasExpiration = hasLifetime c, ca_isSession = (\<not> hasLifetime c),
                   ca_isPersistent = hasLifetime c, ca_isSensitive = isSensitive,
                   ca_vulnerabilities = vs1 @ vs2,
                   ca_securityLevel =
                     determineCookieSecurityLevel (c_secure c) (c_httpOnly c)
                       (sameSite \<noteq> None) (vs1 @ vs2)\<rparr>)"

text \<open>The counters of \<^verbatim>\<open>analysis.summary\<close>.\<close>

record cookie_summary =
  sm_secure :: nat
  sm_httpOnly :: nat
  sm_sameSite :: nat
  sm_withExpiration :: nat
  sm_sessionCookies :: nat
  sm_persistent :: nat

definition summarize :: "cookie_analysis list \<Rightarrow> cookie_summary" where
  "summarize cas =
     \<lparr>sm_secure = length (filter ca_secure cas),
      sm_httpOnly = length (filter ca_httpOnly cas),
      sm_sameSite = length (filter (\<lambda>a. ca_sameSite a \<noteq> None) cas),
      sm_withExpiration = length (filter ca_hasExpiration cas),
      sm_sessionCookies = length (filter ca_isSession cas),
      sm_persistent = length (filter ca_isPersistent cas)\<rparr>"

text \<open>
  \<^verbatim>\<open>_analyzeOverallCookiePatterns\<close>. A ratio over zero cookies is not-a-number in the
  source and every comparison with it is false. For fewer than \<open>2 ^ 50\<close> cookies the
  comparison of the rounded ratio with the double \<^verbatim>\<open>0.8\<close> (or \<^verbatim>\<open>0.6\<close>) has the same
  outcome as the exact comparison written here, since a ratio \<open>a / n\<close> other than \<open>4/5\<close>
  (or \<open>3/5\<close>) is at least \<open>1 / (5 n)\<close> away from it.
\<close>

definition analyzeOverallCookiePatterns :: "cookie_analysis list \<Rightarrow> cookie_summary \<Rightarrow> finding list" where
  "analyzeOverallCookiePatterns cas sm =
     (let n = length cas in
      (if n > 10 then [\<lparr>ftype = ''excessive_cookies'', fseverity = Low\<rparr>] else [])
      @ (if n \<noteq> 0 \<and> real (sm_secure sm) / real n < 0.8
         then [\<lparr>ftype = ''low_secure_cookie_ratio'', fseverity = High\<rparr>] else [])
      @ (if n \<noteq> 0 \<and> real (sm_httpOnly sm) / real n < 0.6
         then [\<lparr>ftype = ''low_httponly_ratio'', fseverity = Medium\<rparr>] else [])
      @ (if sm_sessionCookies sm = 0 \<and> sm_persistent sm > 0
         then [\<lparr>ftype = ''no_session_cookies'', fseverity = Low\<rparr>] else [])
      @ (if length (filter (\<lambda>a. isTrackingCookie (ca_name a)) cas) > 0
         then [\<lparr>ftype = ''tracking_cookies_detected'', fseverity = Info\<rparr>] else []))"

text \<open>The penalty of one finding in \<^verbatim>\<open>_calculateCookieScore\<close>.\<close>

fun cookiePenalty :: "severity \<Rightarrow> int" where
  "cookiePenalty Critical = 25"
| "cookiePenalty High = 15"
| "cookiePenalty Medium = 10"
| "cookiePenalty Low = 5"
| "cookiePenalty Info = 2"
| "cookiePenalty _ = 0"

text \<open>
  \<^verbatim>\<open>_calculateCookieScore\<close> on an analysis with \<^verbatim>\<open>hasCookies\<close> set: 100 minus the
  penalties (integers, exact), then
  \<^verbatim>\<open>
    const secureRatio = analysis.summary.secure / cookies.length;   (likewise httpOnly, sameSite)
    score += (secureRatio * 10);
    score += (httpOnlyRatio * 10);
    score += (sameSiteRatio * 5);
    return Math.max(0, Math.min(100, Math.round(score)));
  \<close>
  every quotient, product and sum rounded to a double. With zero parsed cookies the
  ratios are \<open>0/0\<close> and the score is not-a-number, \<open>None\<close>.
\<close>

definition calculateCookieScore :: "nat \<Rightarrow> finding list \<Rightarrow> cookie_summary \<Rightarrow> int option" where
  "calculateCookieScore n vs sm =
     (if n = 0 then None
      else
        let score0 = real_of_int (100 - sum_list (map (\<lambda>v. cookiePenalty (fseverity v)) vs));
            secureRatio = fl (real (sm_secure sm) / real n);
            httpOnlyRatio = fl (real (sm_httpOnly sm) / real n);
            sameSiteRatio = fl (real (sm_sameSite sm) / real n);
            score1 = fl (score0 + fl (secureRatio * 10));
            score2 = fl (score1 + fl (httpOnlyRatio * 10));
            score3 = fl (score2 + fl (sameSiteRatio * 5))
        in Some (max 0 (min 100 (Math_round score3))))"

text \<open>\<^verbatim>\<open>_calculateGrade\<close> of the cookie analyzer on such a score; not-a-number is F.\<close>

definition cookieGradeOf :: "int option \<Rightarrow> grade" where
  "cookieGradeOf sc = (case sc of None \<Rightarrow> F | Some v \<Rightarrow> cookie_calculateGrade (real_of_int v))"

text \<open>
  The argument of \<^verbatim>\<open>analyzeCookies\<close>: missing (\<^verbatim>\<open>undefined\<close> or \<^verbatim>\<open>null\<close>), one header
  string, or a list of header strings.
\<close>

datatype cookie_headers = Missing | HeaderString string | HeaderList "string list"

text \<open>\<^verbatim>\<open>!cookieHeaders || cookieHeaders.length === 0\<close>\<close>

fun noCookieHeaders :: "cookie_headers \<Rightarrow> bool" where
  "noCookieHeaders Missing = True"
| "noCookieHeaders (HeaderString s) = (s = [])"
| "noCookieHeaders (HeaderList l) = (l = [])"

record cookies_result =
  cr_hasCookies :: bool
  cr_count :: nat
  cr_score :: "int option"
  cr_grade :: grade
  cr_vulnerabilities :: "finding list"
  cr_error :: bool

text \<open>
  \<^verbatim>\<open>analyzeCookies(cookieHeaders, url)\<close>. The Set-Cookie parser is the parameter \<open>parse\<close>.
  The early return carries the literals \<^verbatim>\<open>score: 100, grade: 'A'\<close>. An exception inside the
  loop is caught and answered by \<^verbatim>\<open>_handleAnalysisError\<close>: no cookies, score 0, grade F.
\<close>

definition analyzeCookies ::
  "(cookie_headers \<Rightarrow> cookie list) \<Rightarrow> bool \<Rightarrow> int \<Rightarrow> cookie_headers \<Rightarrow> cookies_result" where
  "analyzeCookies parse url_ok now cookieHeaders =
     (if noCookieHeaders cookieHeaders
      then \<lparr>cr_hasCookies = False, cr_count = 0, cr_score = Some 100, cr_grade = A,
            cr_vulnerabilities = [], cr_error = False\<rparr>
      else
        let cookies = parse cookieHeaders in
        case those (map (analyzeSingleCookie url_ok now) cookies) of
          None \<Rightarrow> \<lparr>cr_hasCookies = False, cr_count = 0, cr_score = Some 0, cr_grade = F,
                    cr_vulnerabilities = [], cr_error = True\<rparr>
        | Some cas \<Rightarrow>
            let sm = summarize cas;
                vs = concat (map ca_vulnerabilities cas) @ analyzeOverallCookiePatterns cas sm;
                sc = calculateCookieScore (length cas) vs sm
            in \<lparr>cr_hasCookies = True, cr_count = length cookies, cr_score = sc,
                cr_grade = cookieGradeOf sc, cr_vulnerabilities = vs, cr_error = False\<rparr>)"

section \<open>Error classification\<close>

text \<open>
  What the classifier reads from a raw request failure: \<^verbatim>\<open>error.code\<close>,
  \<^verbatim>\<open>error.message\<close>, the status of \<^verbatim>\<open>error.response\<close> when a response came back, and
  whether \<^verbatim>\<open>error.request\<close> is set.
\<close>

record raw_error =
  err_code :: "string option"
  err_message :: string
  err_response :: "int option"
  err_request :: bool

datatype error_type = TypeHttpResponse | TypeNetwork | TypeGeneric

text \<open>
  The category strings \<^verbatim>\<open>'network'\<close>, \<^verbatim>\<open>'client_error'\<close>, \<^verbatim>\<open>'server_error'\<close>, \<^verbatim>\<open>'dns'\<close>,
  \<^verbatim>\<open>'connection'\<close>, \<^verbatim>\<open>'timeout'\<close>, \<^verbatim>\<open>'ssl'\<close> and \<^verbatim>\<open>'application'\<close>.
\<close>

datatype error_category =
  CatNetwork | CatClientError | CatServerError | CatDns | CatConnection | CatTimeout
  | CatSsl | CatApplication

record processed_error =
  pe_type :: "error_type option"
  pe_category :: error_category
  pe_severity :: severity
  pe_status :: "int option"
  pe_code :: "string option"

text \<open>
  \<^verbatim>\<open>_handleHttpError\<close>: the record starts with category \<^verbatim>\<open>'network'\<close> and severity
  \<^verbatim>\<open>'error'\<close>; a status in 400..499 makes it a client error (a warning for 404), a status
  from 500 a server error.
\<close>

definition handleHttpError :: "int \<Rightarrow> processed_error" where
  "handleHttpError status =
     \<lparr>pe_type = Some TypeHttpResponse,
      pe_category = (if status \<ge> 400 \<and> status < 500 then CatClientError
                     else if status \<ge> 500 then CatServerError else CatNetwork),
      pe_severity = (if status \<ge> 400 \<and> status < 500 \<and> status = 404 then Warning else Error),
      pe_status = Some status,
      pe_code = None\<rparr>"

text \<open>
  \<^verbatim>\<open>_handleRequestError\<close>: the chain of tests on the code and on the lower-cased message,
  in the order of the source.
\<close>

definition requestErrorCategory :: "string option \<Rightarrow> string \<Rightarrow> error_category" where
  "requestErrorCategory code msg =
     (let message = toLowerCase msg in
      if code = Some ''ENOTFOUND'' \<or> str_includes message ''getaddrinfo'' then CatDns
      else if code = Some ''ECONNREFUSED'' then CatConnection
      else if code = Some ''ETIMEDOUT'' \<or> str_includes message ''timeout'' then CatTimeout
      else if code = Some ''ECONNRESET'' then CatConnection
      else if str_includes message ''certificate'' \<or> str_includes message ''ssl''
              \<or> str_includes message ''tls'' then CatSsl
      else if code = Some ''EHOSTUNREACH'' \<or> code = Some ''ENETUNREACH'' then CatNetwork
      else CatNetwork)"

definition handleRequestError :: "raw_error \<Rightarrow> processed_error" where
  "handleRequestError e =
     (let cat = requestErrorCategory (err_code e) (err_message e) in
      \<lparr>pe_type = Some TypeNetwork, pe_category = cat,
       pe_severity = (if cat = CatTimeout then Warning else Error),
       pe_status = None, pe_code = err_code e\<rparr>)"

definition handleGenericError :: "raw_error \<Rightarrow> processed_error" where
  "handleGenericError e =
     \<lparr>pe_type = Some TypeGeneric, pe_category = CatApplication, pe_severity = Error,
      pe_status = None, pe_code = None\<rparr>"

text \<open>\<^verbatim>\<open>processNetworkError(error, url)\<close>\<close>

definition processNetworkError :: "raw_error \<Rightarrow> processed_error" where
  "processNetworkError e =
     (case err_response e of
        Some status \<Rightarrow> handleHttpError status
      | None \<Rightarrow> if err_request e then handleRequestError e else handleGenericError e)"

text \<open>
  \<^verbatim>\<open>isRecoverableError(error)\<close>: true for the categories \<^verbatim>\<open>'timeout'\<close> and
  \<^verbatim>\<open>'connection'\<close>, and for a non-zero status among 408, 429, 502, 503, 504.
\<close>

definition isRecoverableError :: "processed_error \<Rightarrow> bool" where
  "isRecoverableError e =
     (if pe_category e = CatTimeout \<or> pe_category e = CatConnection then True
      else if (case pe_status e of None \<Rightarrow> False
               | Some st \<Rightarrow> st \<noteq> 0 \<and> st \<in> set [408, 429, 502, 503, 504]) then True
      else False)"

section \<open>The retry loop of the HTTP client\<close>

text \<open>
  What one \<^verbatim>\<open>axios.get\<close> call does: it answers with a response (its status), or it
  throws an error. The outcome of the \<open>k\<close>-th call is \<open>axios k\<close>.
\<close>

datatype attempt_outcome = Responded int | Threw raw_error

text \<open>What the loop does to the outside: it sleeps and it sends requests.\<close>

datatype event = Delay nat | Request nat

text \<open>
  \<^verbatim>\<open>_isNonRetryableError(error)\<close>: false without a response; otherwise
  \<^verbatim>\<open>status >= 400 && status < 500 && ![408, 429].includes(status)\<close>.
\<close>

definition isNonRetryableError :: "raw_error \<Rightarrow> bool" where
  "isNonRetryableError e =
     (case err_response e of
        None \<Rightarrow> False
      | Some status \<Rightarrow> status \<ge> 400 \<and> status < 500 \<and> status \<notin> set [408, 429])"

text \<open>
  The \<^verbatim>\<open>for\<close> loop of \<^verbatim>\<open>_makeRequestWithRetry\<close> from \<open>attempt\<close> on. From the second attempt
  it first sleeps \<^verbatim>\<open>attempt * 1000\<close> milliseconds. A response is returned; an error is kept
  as \<^verbatim>\<open>lastError\<close> and ends the loop when it is not retryable. After the loop
  \<^verbatim>\<open>lastError\<close> is thrown (\<open>Inl\<close>). The events are collected in order.
\<close>

function retryLoop ::
  "(nat \<Rightarrow> attempt_outcome) \<Rightarrow> nat \<Rightarrow> nat \<Rightarrow> raw_error option \<Rightarrow> event list
     \<Rightarrow> (raw_error option + int) \<times> event list" where
  "retryLoop axios maxRetries attempt lastError evs =
     (if attempt \<le> maxRetries then
        (let evs1 = evs @ (if attempt > 1 then [Delay (attempt * 1000)] else []) @ [Request attempt]
         in case axios attempt of
              Responded r \<Rightarrow> (Inr r, evs1)
            | Threw e \<Rightarrow>
                if isNonRetryableError e then (Inl (Some e), evs1)
                else retryLoop axios maxRetries (attempt + 1) (Some e) evs1)
      else (Inl lastError, evs))"
  by pat_completeness auto
termination
  by (relation "measure (\<lambda>(axios, maxRetries, attempt, lastError, evs). Suc maxRetries - attempt)") auto

text \<open>\<^verbatim>\<open>_makeRequestWithRetry(url, config, maxRetries = 3)\<close>, with the default it is called with.\<close>

definition makeRequestWithRetry :: "(nat \<Rightarrow> attempt_outcome) \<Rightarrow> (raw_error option + int) \<times> event list" where
  "makeRequestWithRetry axios = retryLoop axios 3 1 None []"

text \<open>
  A run for illustration: the first call fails with a 503 response, the second with a 404
  response, a third would succeed.
\<close>

definition example_axios :: "nat \<Rightarrow> attempt_outcome" where
  "example_axios k =
     (if k = 1 then Threw \<lparr>err_code = None, err_message = ''Request failed with status code 503'',
                           err_response = Some 503, err_request = True\<rparr>
      else if k = 2 then Threw \<lparr>err_code = None, err_message = ''Request failed with status code 404'',
                                 err_response = Some 404, err_request = True\<rparr>
      else Responded 200)"

section \<open>The certificate chain\<close>

text \<open>
  The peer certificate is an object graph: each certificate object may point to its
  issuer's object through \<^verbatim>\<open>issuerCertificate\<close>, and the source compares these pointers by
  identity (\<^verbatim>\<open>cert.issuerCertificate !== cert\<close>). Objects are modelled by their addresses
  in a store. \<open>cert_subject\<close> and \<open>cert_issuer\<close> stand for the JSON text of the two name
  fields, \<open>None\<close> when the field is absent.
\<close>

record certificate =
  cert_subject :: "string option"
  cert_issuer :: "string option"
  issuerCertificate :: "nat option"

type_synonym cert_store = "nat \<Rightarrow> certificate"

text \<open>
  \<^verbatim>\<open>_calculateChainLength(cert, count = 1)\<close>, a recursion without a depth bound:
  \<^verbatim>\<open>
    if (cert.issuerCertificate && cert.issuerCertificate !== cert)
      return this._calculateChainLength(cert.issuerCertificate, count + 1);
    return count;
  \<close>
  \<open>None\<close> means that no value is returned: the recursion does not come to an end (in
  the source it goes on until the call stack is exhausted).
\<close>

partial_function (option) calculateChainLength :: "cert_store \<Rightarrow> nat \<Rightarrow> nat \<Rightarrow> nat option" where
  "calculateChainLength st cert count =
     (case issuerCertificate (st cert) of
        None \<Rightarrow> Some count
      | Some i \<Rightarrow> if i \<noteq> cert then calculateChainLength st i (count + 1) else Some count)"

text \<open>
  The \<^verbatim>\<open>while\<close> loop of \<^verbatim>\<open>_isChainComplete(cert)\<close>:
  \<^verbatim>\<open>
    while (current.issuerCertificate && current.issuerCertificate !== current)
      current = current.issuerCertificate;
  \<close>
  It yields the certificate the loop stops at, and \<open>None\<close> when the loop does not stop.
\<close>

partial_function (option) chainWalk :: "cert_store \<Rightarrow> nat \<Rightarrow> nat option" where
  "chainWalk st current =
     (case issuerCertificate (st current) of
        None \<Rightarrow> Some current
      | Some i \<Rightarrow> if i \<noteq> current then chainWalk st i else Some current)"

text \<open>
  \<^verbatim>\<open>_isChainComplete(cert)\<close>: after the loop, whether subject and issuer of the last
  certificate are both present and have the same JSON text.
\<close>

definition isChainComplete :: "cert_store \<Rightarrow> nat \<Rightarrow> bool option" where
  "isChainComplete st cert =
     map_option (\<lambda>cur. cert_subject (st cur) \<noteq> None \<and> cert_issuer (st cur) \<noteq> None \<and>
                        cert_subject (st cur) = cert_issuer (st cur))
       (chainWalk st cert)"

text \<open>
  Following the issuer pointers from \<open>a\<close>, a certificate without an issuer pointer or
  with a pointer to itself comes up after at most \<open>n\<close> steps.
\<close>

fun endsWithin :: "cert_store \<Rightarrow> nat \<Rightarrow> nat \<Rightarrow> bool" where
  "endsWithin st 0 a = (case issuerCertificate (st a) of None \<Rightarrow> True | Some i \<Rightarrow> i = a)"
| "endsWithin st (Suc n) a =
     (case issuerCertificate (st a) of None \<Rightarrow> True | Some i \<Rightarrow> i = a \<or> endsWithin st n i)"

text \<open>
  Two stores. In \<open>cross_signed\<close> the objects 0 and 1 name each other as issuer, a cycle of
  length two. In \<open>rooted_chain\<close> a leaf 0 is issued by an intermediate 1, which is issued
  by a root 2 that points to itself.
\<close>

definition cross_signed :: cert_store where
  "cross_signed a =
     (if a = 0 then \<lparr>cert_subject = Some ''CA-A'', cert_issuer = Some ''CA-B'', issuerCertificate = Some 1\<rparr>
      else \<lparr>cert_subject = Some ''CA-B'', cert_issuer = Some ''CA-A'', issuerCertificate = Some 0\<rparr>)"

definition rooted_chain :: cert_store where
  "rooted_chain a =
     (if a = 0 then \<lparr>cert_subject = Some ''leaf'', cert_issuer = Some ''mid'', issuerCertificate = Some 1\<rparr>
      else if a = 1 then \<lparr>cert_subject = Some ''mid'', cert_issuer = Some ''root'', issuerCertificate = Some 2\<rparr>
      else \<lparr>cert_subject = Some ''root'', cert_issuer = Some ''root'', issuerCertificate = Some 2\<rparr>)"

section \<open>URL validation\<close>

text \<open>
  \<^verbatim>\<open>REGEX.IPV4\<close>: four dot-separated parts, each matching
  \<^verbatim>\<open>25[0-5]|2[0-4][0-9]|[01]?[0-9][0-9]?\<close>, that is one or two digits, or three digits
  that read at most 255.
\<close>

definition is_octet :: "string \<Rightarrow> bool" where
  "is_octet p =
     (list_all is_digit p \<and>
      (length p = 1 \<or> length p = 2 \<or>
       (length p = 3 \<and>
          (p ! 0 \<in> set ''01''
           \<or> (p ! 0 = CHR ''2'' \<and> p ! 1 \<in> set ''01234'')
           \<or> (p ! 0 = CHR ''2'' \<and> p ! 1 = CHR ''5'' \<and> p ! 2 \<in> set ''012345'')))))"

definition REGEX_IPV4 :: "string \<Rightarrow> bool" where
  "REGEX_IPV4 h = (let ps = split_on CHR ''.'' h in length ps = 4 \<and> list_all is_octet ps)"

text \<open>\<^verbatim>\<open>REGEX.IPV6\<close>: eight colon-separated groups of one to four hexadecimal digits.\<close>

definition REGEX_IPV6 :: "string \<Rightarrow> bool" where
  "REGEX_IPV6 h =
     (let ps = split_on CHR '':'' h
      in length ps = 8 \<and> list_all (\<lambda>p. 1 \<le> length p \<and> length p \<le> 4 \<and> list_all is_hex p) ps)"

definition isIP :: "string \<Rightarrow> bool" where
  "isIP hostname = (REGEX_IPV4 hostname \<or> REGEX_IPV6 hostname)"

text \<open>
  The domain pattern of \<^verbatim>\<open>_isValidHostname\<close>: dot-separated labels of 1 to 63 characters,
  letters, digits and hyphens, neither starting nor ending with a hyphen.
\<close>

definition is_label :: "string \<Rightarrow> bool" where
  "is_label l =
     (l \<noteq> [] \<and> length l \<le> 63 \<and> is_alnum (hd l) \<and> is_alnum (last l) \<and>
      list_all (\<lambda>c. is_alnum c \<or> c = CHR ''-'') l)"

definition isValidHostname :: "string \<Rightarrow> bool" where
  "isValidHostname hostname =
     (if isIP hostname then True
      else list_all is_label (split_on CHR ''.'' hostname) \<and> length hostname \<le> 253)"

text \<open>\<^verbatim>\<open>Number(part)\<close> on a string of decimal digits.\<close>

definition digit_value :: "char \<Rightarrow> nat" where
  "digit_value c = of_char c - 48"

definition Number :: "string \<Rightarrow> nat" where
  "Number p = foldl (\<lambda>a c. a * 10 + digit_value c) 0 p"

text \<open>
  \<^verbatim>\<open>_isPrivateIP(hostname)\<close>: false unless the host name matches \<^verbatim>\<open>REGEX.IPV4\<close>; then the
  ranges 10.x, 172.16-31.x, 192.168.x, 127.x (commented \<^verbatim>\<open>// localhost\<close>) and 0.x
  (commented \<^verbatim>\<open>// 0.0.0.0\<close>).
\<close>

definition isPrivateIP :: "string \<Rightarrow> bool" where
  "isPrivateIP hostname =
     (if \<not> REGEX_IPV4 hostname then False
      else
        let parts = map Number (split_on CHR ''.'' hostname) in
        parts ! 0 = 10
        \<or> (parts ! 0 = 172 \<and> parts ! 1 \<ge> 16 \<and> parts ! 1 \<le> 31)
        \<or> (parts ! 0 = 192 \<and> parts ! 1 = 168)
        \<or> parts ! 0 = 127
        \<or> parts ! 0 = 0)"

text \<open>
  The fields the validator reads from the platform's \<^verbatim>\<open>URL\<close> object. The URL parser
  itself and the DNS lookup are parameters of the model: \<open>parse\<close> returns \<open>None\<close> where the
  constructor throws, \<open>dns\<close> returns the error message of a failed lookup and \<open>None\<close> for a
  lookup that resolves.
\<close>

record parsed_url =
  u_protocol :: string
  u_hostname :: string
  u_port :: string
  u_pathname :: string
  u_search :: string

datatype validation_error =
  MalformedUrl | BadProtocol | InvalidHostname | BadHostnameFormat | PrivateIPNotAllowed
  | DnsUnresolved string

text \<open>\<^verbatim>\<open>DEFAULT_PORTS\<close>, as text.\<close>

definition DEFAULT_PORTS :: "string \<Rightarrow> string option" where
  "DEFAULT_PORTS p = (if p = ''http:'' then Some ''80'' else if p = ''https:'' then Some ''443'' else None)"

text \<open>
  \<^verbatim>\<open>_normalizeUrl\<close>. The port test compares the port string with a number by \<^verbatim>\<open>!==\<close>,
  which always differs, so every non-empty port is appended.
\<close>

definition normalizeUrl :: "parsed_url \<Rightarrow> string" where
  "normalizeUrl u =
     u_protocol u @ ''//'' @ u_hostname u
     @ (if u_port u \<noteq> [] then '':'' @ u_port u else [])
     @ (if u_pathname u = ''/'' then [] else u_pathname u)
     @ u_search u"

record validated_url =
  v_url :: string
  v_normalizedUrl :: string
  v_protocol :: string
  v_hostname :: string
  v_port :: "string option"

text \<open>
  \<^verbatim>\<open>_validateSingleUrl(testUrl)\<close>: the errors are collected in the order of the checks
  (protocol, empty host name, host name format, private address, DNS); any error makes
  the candidate invalid.
\<close>

definition validateSingleUrl ::
  "(string \<Rightarrow> parsed_url option) \<Rightarrow> (string \<Rightarrow> string option) \<Rightarrow> string
     \<Rightarrow> validation_error list + validated_url" where
  "validateSingleUrl parse dns testUrl =
     (case parse testUrl of
        None \<Rightarrow> Inl [MalformedUrl]
      | Some u \<Rightarrow>
          let errors =
                (if u_protocol u \<notin> set [''http:'', ''https:''] then [BadProtocol] else [])
                @ (if u_hostname u = [] then [InvalidHostname] else [])
                @ (if u_hostname u \<noteq> [] \<and> \<not> isValidHostname (u_hostname u)
                   then [BadHostnameFormat] else [])
                @ (if isPrivateIP (u_hostname u) then [PrivateIPNotAllowed] else [])
                @ (case dns (u_hostname u) of Some msg \<Rightarrow> [DnsUnresolved msg] | None \<Rightarrow> [])
          in if length errors > 0 then Inl errors
             else Inr \<lparr>v_url = testUrl, v_normalizedUrl = normalizeUrl u,
                       v_protocol = u_protocol u, v_hostname = u_hostname u,
                       v_port = (if u_port u \<noteq> [] then Some (u_port u)
                                 else DEFAULT_PORTS (u_protocol u))\<rparr>)"

definition is_space :: "char \<Rightarrow> bool" where
  "is_space c = (c \<in> set [CHR 0x20, CHR 0x09, CHR 0x0A, CHR 0x0B, CHR 0x0C, CHR 0x0D])"

definition trim :: "string \<Rightarrow> string" where
  "trim s = rev (dropWhile is_space (rev (dropWhile is_space s)))"

text \<open>\<^verbatim>\<open>_cleanInput(input)\<close> on a string; the empty string throws (\<open>None\<close>).\<close>

definition cleanInput :: "string \<Rightarrow> string option" where
  "cleanInput input = (if input = [] then None else Some (toLowerCase (trim input)))"

text \<open>
  \<^verbatim>\<open>_generateUrlVariations(cleanUrl)\<close>. For an \<^verbatim>\<open>http://\<close> input the HTTPS counterpart is
  put in front (\<^verbatim>\<open>unshift\<close>); without a scheme the candidates are \<^verbatim>\<open>https://\<close>, \<^verbatim>\<open>http://\<close>
  and, unless the input starts with \<^verbatim>\<open>www.\<close>, the same two with \<^verbatim>\<open>www.\<close>.
\<close>

definition generateUrlVariations :: "string \<Rightarrow> string list" where
  "generateUrlVariations cleanUrl =
     (if startsWith cleanUrl ''http://'' \<or> startsWith cleanUrl ''https://''
      then (if startsWith cleanUrl ''http://''
            then [''https://'' @ drop 7 cleanUrl, cleanUrl] else [cleanUrl])
      else [''https://'' @ cleanUrl, ''http://'' @ cleanUrl]
           @ (if \<not> startsWith cleanUrl ''www.''
              then [''https://www.'' @ cleanUrl, ''http://www.'' @ cleanUrl] else []))"

text \<open>
  The result of \<^verbatim>\<open>validateAndNormalize\<close>: the first candidate that passes, or the errors
  of every candidate, or the internal-error answer of the outer \<^verbatim>\<open>catch\<close>. The
  suggestions that accompany an invalid result are left out.
\<close>

datatype validation_result =
  Valid validated_url bool
  | Invalid "(string \<times> validation_error list) list"
  | InternalFailure

text \<open>The loop over the candidates, \<open>errs\<close> being \<^verbatim>\<open>validationErrors\<close> so far.\<close>

fun tryVariations ::
  "(string \<Rightarrow> parsed_url option) \<Rightarrow> (string \<Rightarrow> string option) \<Rightarrow> string list
     \<Rightarrow> (string \<times> validation_error list) list \<Rightarrow> validation_result" where
  "tryVariations parse dns [] errs = Invalid errs"
| "tryVariations parse dns (v # vs) errs =
     (case validateSingleUrl parse dns v of
        Inr r \<Rightarrow> Valid r (v_protocol r = ''https:'')
      | Inl es \<Rightarrow> tryVariations parse dns vs (errs @ [(v, es)]))"

definition validateAndNormalize ::
  "(string \<Rightarrow> parsed_url option) \<Rightarrow> (string \<Rightarrow> string option) \<Rightarrow> string \<Rightarrow> validation_result" where
  "validateAndNormalize parse dns inputUrl =
     (case cleanInput inputUrl of
        None \<Rightarrow> InternalFailure
      | Some cleanUrl \<Rightarrow> tryVariations parse dns (generateUrlVariations cleanUrl) [])"

text \<open>
  What the \<^verbatim>\<open>URL\<close> constructor returns on the five URLs used in the statements below;
  nothing is said about other inputs.
\<close>

definition url_table :: "string \<Rightarrow> parsed_url option" where
  "url_table s =
     (if s = ''https://localhost'' then
        Some \<lparr>u_protocol = ''https:'', u_hostname = ''localhost'', u_port = [], u_pathname = ''/'', u_search = []\<rparr>
      else if s = ''http://localhost'' then
        Some \<lparr>u_protocol = ''http:'', u_hostname = ''localhost'', u_port = [], u_pathname = ''/'', u_search = []\<rparr>
      else if s = ''https://192.168.1.1'' then
        Some \<lparr>u_protocol = ''https:'', u_hostname = ''192.168.1.1'', u_port = [], u_pathname = ''/'', u_search = []\<rparr>
      else if s = ''http://192.168.1.1'' then
        Some \<lparr>u_protocol = ''http:'', u_hostname = ''192.168.1.1'', u_port = [], u_pathname = ''/'', u_search = []\<rparr>
      else if s = ''https://example.com'' then
        Some \<lparr>u_protocol = ''https:'', u_hostname = ''example.com'', u_port = [], u_pathname = ''/'', u_search = []\<rparr>
      else None)"

section \<open>Properties of the grade functions\<close>

lemma calculateGrade_cases:
  "calculateGrade s = APlus \<longleftrightarrow> 90 \<le> s"
  "calculateGrade s = A \<longleftrightarrow> 80 \<le> s \<and> s < 90"
  "calculateGrade s = B \<longleftrightarrow> 70 \<le> s \<and> s < 80"
  "calculateGrade s = C \<longleftrightarrow> 60 \<le> s \<and> s < 70"
  "calculateGrade s = D \<longleftrightarrow> 50 \<le> s \<and> s < 60"
  "calculateGrade s = F \<longleftrightarrow> s < 50"
  by (auto simp: calculateGrade_def)

lemma grade_rank_calculateGrade:
  "grade_rank (calculateGrade s) =
     (if 90 \<le> s then 5 else if 80 \<le> s then 4 else if 70 \<le> s then 3
      else if 60 \<le> s then 2 else if 50 \<le> s then 1 else 0)"
  by (simp add: calculateGrade_def)

text \<open>
  Claim C3. The score-to-grade mapping gives A+ exactly to the scores of at least 90, A to
  the remaining scores of at least 80, B from 70, C from 60, D from 50 and F to every
  lower score; and it is monotone: whenever \<open>s1 \<le> s2\<close>, the grade of \<open>s1\<close> is at most the
  grade of \<open>s2\<close> in the order \<open>F < D < C < B < A < A+\<close>.
\<close>

theorem calculateGrade_thresholds_mono:
  "(calculateGrade s = APlus \<longleftrightarrow> 90 \<le> s) \<and>
   (calculateGrade s = A \<longleftrightarrow> 80 \<le> s \<and> s < 90) \<and>
   (calculateGrade s = B \<longleftrightarrow> 70 \<le> s \<and> s < 80) \<and>
   (calculateGrade s = C \<longleftrightarrow> 60 \<le> s \<and> s < 70) \<and>
   (calculateGrade s = D \<longleftrightarrow> 50 \<le> s \<and> s < 60) \<and>
   (calculateGrade s = F \<longleftrightarrow> s < 50) \<and>
   (s1 \<le> s2 \<longrightarrow> grade_rank (calculateGrade s1) \<le> grade_rank (calculateGrade s2))"
proof -
  have mono: "s1 \<le> s2 \<longrightarrow> grade_rank (calculateGrade s1) \<le> grade_rank (calculateGrade s2)"
    by (simp add: grade_rank_calculateGrade)
  show ?thesis
    by (intro conjI calculateGrade_cases mono)
qed

theorem calculateGrade_thresholds_mono_witness:
  "calculateGrade 85 = A \<and> calculateGrade 49 = F \<and> (49::real) \<le> 85 \<and>
   grade_rank (calculateGrade 49) \<le> grade_rank (calculateGrade 85)"
  using calculateGrade_thresholds_mono [of 85 49 85]
        calculateGrade_thresholds_mono [of 49 49 85]
  by simp

text \<open>
  Claim C10. The three score-to-grade functions of the aggregation controller, the cookie
  analyzer and the header analyzer return the same letter for every score.
\<close>

theorem grade_functions_agree:
  "calculateGrade s = cookie_calculateGrade s \<and>
   cookie_calculateGrade s = header_calculateGrade s"
  by (simp add: calculateGrade_def cookie_calculateGrade_def header_calculateGrade_def)

section \<open>Properties of double rounding\<close>

lemma expo_bounds: "0 < x \<Longrightarrow> 2 powi expo x \<le> x \<and> x < 2 powi (expo x + 1)"
proof (induction x rule: expo.induct)
  case (1 x)
  show ?case
  proof (cases "x < 1")
    case True
    with 1 have IH: "2 powi expo (2 * x) \<le> 2 * x \<and> 2 * x < 2 powi (expo (2 * x) + 1)" by simp
    have e: "expo x = expo (2 * x) - 1" using True 1(3) by (subst expo.simps) simp
    have p: "2 powi (expo (2 * x)) = (2::real) * 2 powi (expo (2 * x) - 1)"
      by (simp add: power_int_diff)
    have q: "2 powi (expo (2 * x) + 1) = (2::real) * 2 powi (expo (2 * x))"
      by (simp add: power_int_add)
    show ?thesis using IH p q unfolding e by simp
  next
    case False
    show ?thesis
    proof (cases "2 \<le> x")
      case True
      with 1 False have IH: "2 powi expo (x / 2) \<le> x / 2 \<and> x / 2 < 2 powi (expo (x / 2) + 1)" by simp
      have e: "expo x = expo (x / 2) + 1" using True False 1(3) by (subst expo.simps) simp
      have q: "\<And>k. 2 powi (k + 1) = (2::real) * 2 powi k"
        by (simp add: power_int_add)
      show ?thesis using IH unfolding e q by simp
    next
      case F2: False
      have e: "expo x = 0" using False F2 1(3) by (subst expo.simps) simp
      show ?thesis using False F2 unfolding e by simp
    qed
  qed
qed

lemma round_even_close: "\<bar>real_of_int (round_even y) - y\<bar> \<le> 1 / 2"
  unfolding round_even_def Let_def by (auto simp: abs_if; linarith)

lemma fl_error: "\<bar>fl x - x\<bar> \<le> \<bar>x\<bar> / 2 ^ 53"
proof (cases "x = 0")
  case True
  then show ?thesis by (simp add: fl_def)
next
  case False
  define k where "k = expo \<bar>x\<bar>"
  define g :: real where "g = 2 powi (k - 52)"
  have gpos: "0 < g" by (simp add: g_def)
  from False have "0 < \<bar>x\<bar>" by simp
  from expo_bounds [OF this] have lo: "2 powi k \<le> \<bar>x\<bar>" by (simp add: k_def)
  have flx: "fl x = of_int (round_even (x / g)) * g"
    using False by (simp add: fl_def k_def g_def Let_def)
  have "\<bar>fl x - x\<bar> = \<bar>of_int (round_even (x / g)) - x / g\<bar> * g"
  proof -
    have "fl x - x = (of_int (round_even (x / g)) - x / g) * g"
      using gpos by (simp add: flx field_simps)
    then show ?thesis using gpos by (simp add: abs_mult)
  qed
  also have "\<dots> \<le> (1 / 2) * g"
    using round_even_close [of "x / g"] gpos by (intro mult_right_mono) simp_all
  also have "(1 / 2) * g = 2 powi k / 2 ^ 53"
  proof -
    have "(2::real) powi (k - 52) = 2 powi k / 2 ^ 52" by (simp add: power_int_diff)
    then show ?thesis by (simp add: g_def)
  qed
  also have "\<dots> \<le> \<bar>x\<bar> / 2 ^ 53" using lo by (simp add: divide_right_mono)
  finally show ?thesis .
qed

text \<open>
  One rounding step on a value of magnitude at most \<open>2 ^ 23 = 8388608\<close> adds at most
  \<open>2 ^ -30 = 1 / 1073741824\<close> to the error.
\<close>

lemma fl_step:
  assumes "\<bar>x - y\<bar> \<le> d" and "\<bar>y\<bar> + d \<le> 8388608"
  shows "\<bar>fl x - y\<bar> \<le> d + 1 / 1073741824"
proof -
  have "\<bar>x\<bar> \<le> 8388608" using assms by linarith
  then have "\<bar>x\<bar> / 2 ^ 53 \<le> 8388608 / 2 ^ 53" by (simp add: divide_right_mono)
  also have "\<dots> = (1::real) / 1073741824" by simp
  finally have "\<bar>fl x - x\<bar> \<le> 1 / 1073741824" using fl_error [of x] by linarith
  with assms(1) show ?thesis by linarith
qed

lemma fl_add_step:
  assumes "\<bar>a - x\<bar> \<le> d1" and "\<bar>b - y\<bar> \<le> d2" and "\<bar>x + y\<bar> + (d1 + d2) \<le> 8388608"
  shows "\<bar>fl (a + b) - (x + y)\<bar> \<le> d1 + d2 + 1 / 1073741824"
proof -
  have "\<bar>(a + b) - (x + y)\<bar> \<le> d1 + d2" using assms(1,2) by linarith
  from fl_step [OF this assms(3)] show ?thesis .
qed

lemma real_of_int_bound:
  "\<bar>s\<bar> \<le> (1048576::int) \<Longrightarrow> \<bar>real_of_int s\<bar> \<le> 1048576"
  by (metis of_int_abs of_int_le_iff of_int_numeral)

text \<open>
  A weight between 0 and one half as a double, times an integer score of magnitude at
  most \<open>2 ^ 20 = 1048576\<close>.
\<close>

lemma fl_weighted:
  assumes "0 \<le> c" and "c \<le> 1 / 2" and "\<bar>s\<bar> \<le> (1048576::int)"
  shows "\<bar>fl (of_int s * fl c) - of_int s * c\<bar> \<le> 2 / 1073741824"
    and "\<bar>real_of_int s * c\<bar> \<le> 524288"
proof -
  have s: "\<bar>real_of_int s\<bar> \<le> 1048576" by (rule real_of_int_bound [OF assms(3)])
  have "\<bar>fl c - c\<bar> \<le> \<bar>c\<bar> / 2 ^ 53" by (rule fl_error)
  also have "\<dots> \<le> (1 / 2) / 2 ^ 53" using assms by (simp add: divide_right_mono)
  finally have c: "\<bar>fl c - c\<bar> \<le> 1 / 2 ^ 54" by simp
  have "\<bar>of_int s * fl c - of_int s * c\<bar> = \<bar>real_of_int s\<bar> * \<bar>fl c - c\<bar>"
    by (simp add: abs_mult right_diff_distrib [symmetric])
  also have "\<dots> \<le> 1048576 * (1 / 2 ^ 54)"
    using s c by (intro mult_mono) simp_all
  also have "\<dots> \<le> (1::real) / 1073741824" by simp
  finally have d: "\<bar>of_int s * fl c - of_int s * c\<bar> \<le> 1 / 1073741824" .
  have "\<bar>real_of_int s * c\<bar> \<le> 1048576 * (1 / 2)"
    unfolding abs_mult using s assms by (intro mult_mono) simp_all
  then show m: "\<bar>real_of_int s * c\<bar> \<le> 524288" by simp
  then have "\<bar>real_of_int s * c\<bar> + 1 / 1073741824 \<le> 8388608" by simp
  from fl_step [OF d this] show "\<bar>fl (of_int s * fl c) - of_int s * c\<bar> \<le> 2 / 1073741824"
    by simp
qed

section \<open>Properties of the aggregation\<close>

lemma criticalCount_append: "criticalCount (xs @ ys) = criticalCount xs + criticalCount ys"
  by (simp add: criticalCount_def)

lemma overallScore_range:
  "0 \<le> overallScore ssl headers cookies html https \<and>
   overallScore ssl headers cookies html https \<le> 100"
  by (simp add: overallScore_def calculateOverallScore_def Let_def)

text \<open>
  Two runs of the aggregator. With a header score of 90, the other scores 0, an HTTPS URL
  and no finding, the exact weighted sum is 31.5, the sum in doubles is
  31.499999999999996 and the overall score is 31. With scores 90, 61, 100, an absent
  html score, one critical finding and no HTTPS, the formula gives 43.85 and the overall
  score is 44.
\<close>

lemma overallScore_examples:
  "overallScore \<lparr>cat_score = Some 0, cat_vulnerabilities = []\<rparr>
       \<lparr>cat_score = Some 90, cat_vulnerabilities = []\<rparr>
       \<lparr>cat_score = Some 0, cat_vulnerabilities = []\<rparr>
       \<lparr>cat_score = Some 0, cat_vulnerabilities = []\<rparr> True = 31"
  "overallScore
       \<lparr>cat_score = Some 90, cat_vulnerabilities = [\<lparr>ftype = ''weak_cipher'', fseverity = Critical\<rparr>]\<rparr>
       \<lparr>cat_score = Some 61, cat_vulnerabilities = []\<rparr>
       \<lparr>cat_score = Some 100, cat_vulnerabilities = []\<rparr>
       \<lparr>cat_score = None, cat_vulnerabilities = []\<rparr> False = 44"
  by code_simp+

text \<open>
  Claim C1, as stated: the overall score equals the weighted sum minus the penalties,
  clamped into [0,100]. It fails where the weighted sum is not an integer: with an ssl
  score of 1, the other three scores 0, no finding and an HTTPS URL the formula gives
  0.25, and \<^verbatim>\<open>_calculateOverallScore\<close> returns \<^verbatim>\<open>Math.round(0.25) = 0\<close>.
\<close>

theorem overallScore_unrounded_counterexample:
  "real_of_int (overallScore \<lparr>cat_score = Some 1, cat_vulnerabilities = []\<rparr>
       \<lparr>cat_score = Some 0, cat_vulnerabilities = []\<rparr>
       \<lparr>cat_score = Some 0, cat_vulnerabilities = []\<rparr>
       \<lparr>cat_score = Some 0, cat_vulnerabilities = []\<rparr> True)
   \<noteq> max 0 (min 100 (0.25 * 1 + 0.35 * 0 + 0.25 * 0 + 0.15 * 0 - real (min 30 (10 * 0)) - 0))"
proof -
  have "overallScore \<lparr>cat_score = Some 1, cat_vulnerabilities = []\<rparr>
       \<lparr>cat_score = Some 0, cat_vulnerabilities = []\<rparr>
       \<lparr>cat_score = Some 0, cat_vulnerabilities = []\<rparr>
       \<lparr>cat_score = Some 0, cat_vulnerabilities = []\<rparr> True = 0"
    by code_simp
  then show ?thesis by simp
qed

text \<open>
  The weighted sum in doubles is within \<open>12 / 2 ^ 30\<close> of the exact weighted sum, for
  integer scores of magnitude at most \<open>2 ^ 20\<close>.
\<close>

lemma weightedScore_close:
  assumes sc: "score_or_zero (an_ssl a) = of_int s" "score_or_zero (an_headers a) = of_int h"
      "score_or_zero (an_cookies a) = of_int c" "score_or_zero (an_html a) = of_int t"
    and bd: "\<bar>s\<bar> \<le> 1048576" "\<bar>h\<bar> \<le> 1048576" "\<bar>c\<bar> \<le> 1048576" "\<bar>t\<bar> \<le> 1048576"
  shows "\<bar>weightedScore a - (of_int s * 0.25 + of_int h * 0.35 + of_int c * 0.25 + of_int t * 0.15)\<bar>
           \<le> 12 / 1073741824"
    and "\<bar>real_of_int s * 0.25 + of_int h * 0.35 + of_int c * 0.25 + of_int t * 0.15\<bar> \<le> 2097152"
proof -
  define xs where "xs = real_of_int s * 0.25"
  define xh where "xh = real_of_int h * 0.35"
  define xc where "xc = real_of_int c * 0.25"
  define xt where "xt = real_of_int t * 0.15"
  define ps where "ps = fl (real_of_int s * fl 0.25)"
  define ph where "ph = fl (real_of_int h * fl 0.35)"
  define pc where "pc = fl (real_of_int c * fl 0.25)"
  define pt where "pt = fl (real_of_int t * fl 0.15)"
  define w1 where "w1 = fl (0 + ps)"
  define w2 where "w2 = fl (w1 + ph)"
  define w3 where "w3 = fl (w2 + pc)"
  define w4 where "w4 = fl (w3 + pt)"
  have w: "weightedScore a = w4"
    by (simp add: weightedScore_def sc Let_def w4_def w3_def w2_def w1_def ps_def ph_def pc_def pt_def)
  have es: "\<bar>ps - xs\<bar> \<le> 2 / 1073741824" and ms: "\<bar>xs\<bar> \<le> 524288"
    unfolding ps_def xs_def by (rule fl_weighted [OF _ _ bd(1)]; simp)+
  have eh: "\<bar>ph - xh\<bar> \<le> 2 / 1073741824" and mh: "\<bar>xh\<bar> \<le> 524288"
    unfolding ph_def xh_def by (rule fl_weighted [OF _ _ bd(2)]; simp)+
  have ec: "\<bar>pc - xc\<bar> \<le> 2 / 1073741824" and mc: "\<bar>xc\<bar> \<le> 524288"
    unfolding pc_def xc_def by (rule fl_weighted [OF _ _ bd(3)]; simp)+
  have et: "\<bar>pt - xt\<bar> \<le> 2 / 1073741824" and mt: "\<bar>xt\<bar> \<le> 524288"
    unfolding pt_def xt_def by (rule fl_weighted [OF _ _ bd(4)]; simp)+
  have z: "\<bar>(0::real) - 0\<bar> \<le> 0" by simp
  have "\<bar>0 + xs\<bar> + (0 + 2 / 1073741824) \<le> 8388608" using ms by linarith
  from fl_add_step [OF z es this] have e1: "\<bar>w1 - xs\<bar> \<le> 3 / 1073741824"
    unfolding w1_def by simp
  have "\<bar>xs + xh\<bar> + (3 / 1073741824 + 2 / 1073741824) \<le> 8388608" using ms mh by linarith
  from fl_add_step [OF e1 eh this] have e2: "\<bar>w2 - (xs + xh)\<bar> \<le> 6 / 1073741824"
    unfolding w2_def by simp
  have "\<bar>xs + xh + xc\<bar> + (6 / 1073741824 + 2 / 1073741824) \<le> 8388608"
    using ms mh mc by linarith
  from fl_add_step [OF e2 ec this] have e3: "\<bar>w3 - (xs + xh + xc)\<bar> \<le> 9 / 1073741824"
    unfolding w3_def by simp
  have "\<bar>xs + xh + xc + xt\<bar> + (9 / 1073741824 + 2 / 1073741824) \<le> 8388608"
    using ms mh mc mt by linarith
  from fl_add_step [OF e3 et this] have e4: "\<bar>w4 - (xs + xh + xc + xt)\<bar> \<le> 12 / 1073741824"
    unfolding w4_def by simp
  show "\<bar>weightedScore a - (of_int s * 0.25 + of_int h * 0.35 + of_int c * 0.25 + of_int t * 0.15)\<bar>
           \<le> 12 / 1073741824"
    using e4 unfolding w xs_def xh_def xc_def xt_def .
  have "\<bar>xs + xh + xc + xt\<bar> \<le> 2097152" using ms mh mc mt by linarith
  then show "\<bar>real_of_int s * 0.25 + of_int h * 0.35 + of_int c * 0.25 + of_int t * 0.15\<bar> \<le> 2097152"
    unfolding xs_def xh_def xc_def xt_def .
qed

lemma Math_round_near:
  assumes "\<bar>w - of_int k / 20\<bar> \<le> 14 / 1073741824"
  shows "\<bar>real_of_int (Math_round w) - of_int k / 20\<bar> \<le> 1 / 2"
proof -
  define n where "n = Math_round w"
  have n1: "real_of_int n \<le> w + 1 / 2" and n2: "w + 1 / 2 < real_of_int n + 1"
    unfolding n_def Math_round_def by linarith+
  have "real_of_int k > 20 * real_of_int n - 11" using assms n1 by linarith
  then have "real_of_int k > real_of_int (20 * n - 11)" by simp
  then have lo: "k \<ge> 20 * n - 10" unfolding of_int_less_iff by linarith
  have "real_of_int k < 20 * real_of_int n + 11" using assms n2 by linarith
  then have "real_of_int k < real_of_int (20 * n + 11)" by simp
  then have hi: "k \<le> 20 * n + 10" unfolding of_int_less_iff by linarith
  have "real_of_int (20 * n - 10) \<le> real_of_int k" using lo unfolding of_int_le_iff .
  then have l: "20 * real_of_int n - 10 \<le> real_of_int k" by simp
  have "real_of_int k \<le> real_of_int (20 * n + 10)" using hi unfolding of_int_le_iff .
  then have u: "real_of_int k \<le> 20 * real_of_int n + 10" by simp
  show ?thesis unfolding n_def [symmetric] using l u by linarith
qed

text \<open>
  Claim C1, amended. Let the four category scores be integers of magnitude at most
  \<open>2 ^ 20 = 1048576\<close>, an absent score counting as 0 (every analyzer returns an integer
  score). Then the overall score is an integer nearest to
  \<open>0.25 s_ssl + 0.35 s_headers + 0.25 s_cookies + 0.15 s_html\<close> minus
  \<open>min 30 (10 \<times> critical findings of the four categories)\<close> minus 15 when the URL is not
  HTTPS, clamped into [0,100]. The rounding is \<^verbatim>\<open>Math.round\<close> of the sum as accumulated in
  doubles: where the value of the formula lies exactly halfway between two integers the
  result is one of the two, and not always the upper one.
\<close>

theorem overallScore_nearest_integer:
  assumes sc: "score_or_zero ssl = of_int s" "score_or_zero headers = of_int h"
      "score_or_zero cookies = of_int c" "score_or_zero html = of_int t"
    and bd: "\<bar>s\<bar> \<le> 1048576" "\<bar>h\<bar> \<le> 1048576" "\<bar>c\<bar> \<le> 1048576" "\<bar>t\<bar> \<le> 1048576"
  shows "\<exists>n. overallScore ssl headers cookies html https = max 0 (min 100 n) \<and>
           \<bar>real_of_int n -
              (0.25 * of_int s + 0.35 * of_int h + 0.25 * of_int c + 0.15 * of_int t
               - real (min 30 (10 * (criticalCount (cat_vulnerabilities ssl)
                                     + criticalCount (cat_vulnerabilities headers)
                                     + criticalCount (cat_vulnerabilities cookies)
                                     + criticalCount (cat_vulnerabilities html))))
               - (if https then 0 else 15))\<bar> \<le> 1 / 2"
proof -
  define a where "a = consolidateAnalysis
       \<lparr>an_ssl = ssl, an_headers = headers, an_cookies = cookies, an_html = html,
        an_isHttps = https, an_vulnerabilities = []\<rparr>"
  define p :: nat where "p = min 30 (10 * (criticalCount (cat_vulnerabilities ssl)
                                     + criticalCount (cat_vulnerabilities headers)
                                     + criticalCount (cat_vulnerabilities cookies)
                                     + criticalCount (cat_vulnerabilities html)))"
  define X0 where "X0 = real_of_int s * 0.25 + of_int h * 0.35 + of_int c * 0.25 + of_int t * 0.15"
  define w4 where "w4 = weightedScore a"
  define w5 where "w5 = fl (w4 - real p)"
  define w6 where "w6 = (if \<not> https then fl (w5 - 15) else w5)"
  define q :: real where "q = (if https then 0 else 15)"
  have fields: "an_ssl a = ssl" "an_headers a = headers" "an_cookies a = cookies"
      "an_html a = html" "an_isHttps a = https"
    by (simp_all add: a_def consolidateAnalysis_def)
  have pen: "min (criticalCount (an_vulnerabilities a) * 10) 30 = p"
    by (simp add: a_def consolidateAnalysis_def criticalCount_append p_def min.commute mult.commute)
  have ov: "overallScore ssl headers cookies html https = max 0 (min 100 (Math_round w6))"
    by (simp add: overallScore_def a_def [symmetric] calculateOverallScore_def Let_def pen fields
        w6_def w5_def w4_def)
  have e4: "\<bar>w4 - X0\<bar> \<le> 12 / 1073741824" and X0b: "\<bar>X0\<bar> \<le> 2097152"
    unfolding X0_def w4_def using weightedScore_close [of a s h c t] sc bd by (simp_all add: fields)
  have pb: "real p \<le> 30" unfolding p_def by simp
  have p0: "0 \<le> real p" by simp
  have a5: "\<bar>(w4 - real p) - (X0 - real p)\<bar> \<le> 12 / 1073741824" using e4 by linarith
  have b5: "\<bar>X0 - real p\<bar> + 12 / 1073741824 \<le> 8388608" using X0b pb p0 by linarith
  from fl_step [OF a5 b5] have e5: "\<bar>w5 - (X0 - real p)\<bar> \<le> 13 / 1073741824"
    unfolding w5_def by linarith
  have e6: "\<bar>w6 - (X0 - real p - q)\<bar> \<le> 14 / 1073741824"
  proof (cases https)
    case True
    then have "w6 = w5" "q = 0" by (simp_all add: w6_def q_def)
    then show ?thesis using e5 by linarith
  next
    case False
    then have w: "w6 = fl (w5 - 15)" and q: "q = 15" by (simp_all add: w6_def q_def)
    have a6: "\<bar>(w5 - 15) - (X0 - real p - 15)\<bar> \<le> 13 / 1073741824" using e5 by linarith
    have b6: "\<bar>X0 - real p - 15\<bar> + 13 / 1073741824 \<le> 8388608" using X0b pb p0 by linarith
    from fl_step [OF a6 b6] show ?thesis unfolding w q by linarith
  qed
  define k :: int where
    "k = 5 * s + 7 * h + 5 * c + 3 * t - 20 * int p - (if https then 0 else 300)"
  have X: "X0 - real p - q = of_int k / 20"
    by (simp add: X0_def k_def q_def)
  from Math_round_near [of w6 k] e6
  have "\<bar>real_of_int (Math_round w6) - (X0 - real p - q)\<bar> \<le> 1 / 2"
    unfolding X by simp
  moreover have "X0 - real p - q =
      0.25 * of_int s + 0.35 * of_int h + 0.25 * of_int c + 0.15 * of_int t
               - real p - (if https then 0 else 15)"
    by (simp add: X0_def q_def)
  ultimately have "\<bar>real_of_int (Math_round w6) -
              (0.25 * of_int s + 0.35 * of_int h + 0.25 * of_int c + 0.15 * of_int t
               - real p - (if https then 0 else 15))\<bar> \<le> 1 / 2"
    by simp
  with ov show ?thesis unfolding p_def by blast
qed


theorem overallScore_nearest_integer_witness:
  "(\<exists>n. overallScore \<lparr>cat_score = Some 0, cat_vulnerabilities = []\<rparr>
       \<lparr>cat_score = Some 90, cat_vulnerabilities = []\<rparr>
       \<lparr>cat_score = Some 0, cat_vulnerabilities = []\<rparr>
       \<lparr>cat_score = Some 0, cat_vulnerabilities = []\<rparr> True = max 0 (min 100 n) \<and>
       \<bar>real_of_int n - 31.5\<bar> \<le> 1 / 2) \<and>
   overallScore \<lparr>cat_score = Some 0, cat_vulnerabilities = []\<rparr>
       \<lparr>cat_score = Some 90, cat_vulnerabilities = []\<rparr>
       \<lparr>cat_score = Some 0, cat_vulnerabilities = []\<rparr>
       \<lparr>cat_score = Some 0, cat_vulnerabilities = []\<rparr> True = 31"
proof -
  have v: "overallScore \<lparr>cat_score = Some 0, cat_vulnerabilities = []\<rparr>
       \<lparr>cat_score = Some 90, cat_vulnerabilities = []\<rparr>
       \<lparr>cat_score = Some 0, cat_vulnerabilities = []\<rparr>
       \<lparr>cat_score = Some 0, cat_vulnerabilities = []\<rparr> True = 31"
    by code_simp
  show ?thesis
    using overallScore_nearest_integer
      [of "\<lparr>cat_score = Some 0, cat_vulnerabilities = []\<rparr>" 0
          "\<lparr>cat_score = Some 90, cat_vulnerabilities = []\<rparr>" 90
          "\<lparr>cat_score = Some 0, cat_vulnerabilities = []\<rparr>" 0
          "\<lparr>cat_score = Some 0, cat_vulnerabilities = []\<rparr>" 0 True] v
    by (simp add: score_or_zero_def criticalCount_def)
qed

section \<open>Properties of the HTML analysis\<close>

text \<open>
  Claim C2 says that every category score lies in [0,100]. The controller itself notes
  \<^verbatim>\<open>// Scores individuais (0-100)\<close> where it reads them, and the cookie, header and TLS
  analyzers clamp their scores; \<^verbatim>\<open>_analyzeHTML\<close> returns its score unclamped. On an
  HTTPS page with four GET forms that each hold a password field and a charset meta tag
  present, the HTML score is \<open>80 - 4 \<times> 25 = -20\<close>.
\<close>

theorem analyzeHTML_score_negative:
  "html_score (analyzeHTML
     \<lparr>doc_forms = [\<lparr>form_method = None, form_hasPasswordField = True\<rparr>,
                   \<lparr>form_method = None, form_hasPasswordField = True\<rparr>,
                   \<lparr>form_method = None, form_hasPasswordField = True\<rparr>,
                   \<lparr>form_method = None, form_hasPasswordField = True\<rparr>],
      doc_scripts = [], doc_hasCharset = True\<rparr> ''https://example.com'') = - 20"
  by (simp add: analyzeHTML_def analyzeForm_def form_method_of_def startsWith_def)

section \<open>Properties of the cookie analysis\<close>

lemma those_map_Some:
  "(\<And>x. x \<in> set xs \<Longrightarrow> f x \<noteq> None) \<Longrightarrow> those (map f xs) = Some (map (\<lambda>x. the (f x)) xs)"
  by (induction xs) (auto split: option.splits)

lemma analyzeSingleCookie_returns: "analyzeSingleCookie True now c \<noteq> None"
  by (simp add: analyzeSingleCookie_def analyzeCookieScope_def Let_def)

lemma flagFindings_kept:
  "set (flagFindings now c) \<subseteq> set (ca_vulnerabilities (the (analyzeSingleCookie True now c)))"
  by (simp add: analyzeSingleCookie_def analyzeCookieScope_def Let_def)

lemma flagFindings_sensitive_bare:
  assumes "isSensitiveCookie (c_name c)" "\<not> c_secure c" "\<not> c_httpOnly c"
    and "\<not> truthy (c_sameSite c)"
  shows "{\<lparr>ftype = ''missing_secure_flag'', fseverity = Critical\<rparr>,
          \<lparr>ftype = ''missing_httponly_flag'', fseverity = High\<rparr>,
          \<lparr>ftype = ''missing_samesite'', fseverity = Medium\<rparr>} \<subseteq> set (flagFindings now c)"
  using assms by (simp add: flagFindings_def Let_def)

lemma analyzeCookies_vulnerabilities:
  assumes "\<not> noCookieHeaders h" and "c \<in> set (parse h)"
  shows "set (ca_vulnerabilities (the (analyzeSingleCookie True now c)))
           \<subseteq> set (cr_vulnerabilities (analyzeCookies parse True now h))"
proof -
  have "those (map (analyzeSingleCookie True now) (parse h))
          = Some (map (\<lambda>x. the (analyzeSingleCookie True now x)) (parse h))"
    by (rule those_map_Some) (rule analyzeSingleCookie_returns)
  with assms show ?thesis
    by (auto simp: analyzeCookies_def Let_def)
qed

lemma calculateCookieScore_range:
  "calculateCookieScore n vs sm = Some v \<Longrightarrow> 0 \<le> v \<and> v \<le> 100"
  by (auto simp: calculateCookieScore_def Let_def split: if_splits)

text \<open>
  A run of the cookie score: six cookies, two with Secure, two with HttpOnly, one with
  SameSite, and one critical finding. Exactly, \<open>75 + 20/6 + 20/6 + 5/6 = 82.5\<close>; in doubles
  the sum is 82.49999999999999 and the score is 82.
\<close>

lemma calculateCookieScore_example:
  "calculateCookieScore 6 [\<lparr>ftype = ''missing_secure_flag'', fseverity = Critical\<rparr>]
     \<lparr>sm_secure = 2, sm_httpOnly = 2, sm_sameSite = 1, sm_withExpiration = 0,
      sm_sessionCookies = 6, sm_persistent = 0\<rparr> = Some 82"
  by code_simp

text \<open>
  Claim C4 says that the cookie analyzer, given no Set-Cookie entry (a missing argument,
  the empty string or the empty list), returns score 100, grade A+ and
  \<open>hasCookies = false\<close>. The early return of \<^verbatim>\<open>analyzeCookies\<close> carries the literal grade
  \<^verbatim>\<open>'A'\<close> next to the score 100, although the analyzer's own \<^verbatim>\<open>_calculateGrade\<close> maps 100
  to A+: score and \<open>hasCookies\<close> are as claimed, the grade is A.
\<close>

theorem analyzeCookies_empty_grade_A:
  "map (\<lambda>h. (cr_score (analyzeCookies parse url_ok now h),
              cr_hasCookies (analyzeCookies parse url_ok now h),
              cr_grade (analyzeCookies parse url_ok now h)))
       [Missing, HeaderString [], HeaderList []]
     = [(Some 100, False, A), (Some 100, False, A), (Some 100, False, A)] \<and>
   cookie_calculateGrade 100 = APlus \<and> A \<noteq> APlus"
  by (simp add: analyzeCookies_def cookie_calculateGrade_def)

text \<open>
  Claim C9. Take a cookie whose name matches the sensitivity heuristic and which has
  neither Secure nor HttpOnly nor a SameSite value. Analyzed for an origin that is a URL,
  the cookie's own analysis holds a critical \<open>missing_secure_flag\<close> finding, a high
  \<open>missing_httponly_flag\<close> finding and a medium \<open>missing_samesite\<close> finding, and whenever
  the cookie is among those parsed from a non-empty header list, the three findings are
  in the result of the cookie analyzer.
\<close>

theorem sensitive_bare_cookie_findings:
  assumes "isSensitiveCookie (c_name c)" and "\<not> c_secure c" and "\<not> c_httpOnly c"
    and "\<not> truthy (c_sameSite c)"
  shows "(\<exists>a. analyzeSingleCookie True now c = Some a \<and>
            \<lparr>ftype = ''missing_secure_flag'', fseverity = Critical\<rparr> \<in> set (ca_vulnerabilities a) \<and>
            \<lparr>ftype = ''missing_httponly_flag'', fseverity = High\<rparr> \<in> set (ca_vulnerabilities a) \<and>
            \<lparr>ftype = ''missing_samesite'', fseverity = Medium\<rparr> \<in> set (ca_vulnerabilities a)) \<and>
         (\<not> noCookieHeaders h \<and> c \<in> set (parse h) \<longrightarrow>
            \<lparr>ftype = ''missing_secure_flag'', fseverity = Critical\<rparr>
              \<in> set (cr_vulnerabilities (analyzeCookies parse True now h)) \<and>
            \<lparr>ftype = ''missing_httponly_flag'', fseverity = High\<rparr>
              \<in> set (cr_vulnerabilities (analyzeCookies parse True now h)) \<and>
            \<lparr>ftype = ''missing_samesite'', fseverity = Medium\<rparr>
              \<in> set (cr_vulnerabilities (analyzeCookies parse True now h)))"
proof -
  let ?a = "the (analyzeSingleCookie True now c)"
  let ?r = "analyzeCookies parse True now h"
  note three = flagFindings_sensitive_bare [OF assms, of now]
  have kept: "\<And>x. x \<in> set (flagFindings now c) \<Longrightarrow> x \<in> set (ca_vulnerabilities ?a)"
    using flagFindings_kept [of now c] by (rule subsetD)
  have some: "analyzeSingleCookie True now c = Some ?a"
    using analyzeSingleCookie_returns [of now c] by simp
  have a1: "\<lparr>ftype = ''missing_secure_flag'', fseverity = Critical\<rparr> \<in> set (ca_vulnerabilities ?a)"
    by (rule kept) (use three in simp)
  have a2: "\<lparr>ftype = ''missing_httponly_flag'', fseverity = High\<rparr> \<in> set (ca_vulnerabilities ?a)"
    by (rule kept) (use three in simp)
  have a3: "\<lparr>ftype = ''missing_samesite'', fseverity = Medium\<rparr> \<in> set (ca_vulnerabilities ?a)"
    by (rule kept) (use three in simp)
  have up: "\<And>x. \<not> noCookieHeaders h \<and> c \<in> set (parse h) \<Longrightarrow>
               x \<in> set (ca_vulnerabilities ?a) \<Longrightarrow> x \<in> set (cr_vulnerabilities ?r)"
    using analyzeCookies_vulnerabilities [of h c parse now] by (meson subsetD)
  show ?thesis
  proof (intro conjI impI exI [of _ ?a])
    show "analyzeSingleCookie True now c = Some ?a" by (rule some)
  qed (rule a1 a2 a3 up [OF _ a1] up [OF _ a2] up [OF _ a3]; assumption)+
qed

theorem sensitive_bare_cookie_findings_witness:
  "isSensitiveCookie ''sessionid'' \<and>
   \<lparr>ftype = ''missing_secure_flag'', fseverity = Critical\<rparr>
     \<in> set (cr_vulnerabilities (analyzeCookies
         (\<lambda>h. [\<lparr>c_name = ''sessionid'', c_value = ''abc123'', c_domain = None, c_path = None,
                  c_secure = False, c_httpOnly = False, c_sameSite = None, c_maxAge = None,
                  c_expires = None\<rparr>]) True 0 (HeaderList [''sessionid=abc123'']))) \<and>
   \<lparr>ftype = ''missing_httponly_flag'', fseverity = High\<rparr>
     \<in> set (cr_vulnerabilities (analyzeCookies
         (\<lambda>h. [\<lparr>c_name = ''sessionid'', c_value = ''abc123'', c_domain = None, c_path = None,
                  c_secure = False, c_httpOnly = False, c_sameSite = None, c_maxAge = None,
                  c_expires = None\<rparr>]) True 0 (HeaderList [''sessionid=abc123'']))) \<and>
   \<lparr>ftype = ''missing_samesite'', fseverity = Medium\<rparr>
     \<in> set (cr_vulnerabilities (analyzeCookies
         (\<lambda>h. [\<lparr>c_name = ''sessionid'', c_value = ''abc123'', c_domain = None, c_path = None,
                  c_secure = False, c_httpOnly = False, c_sameSite = None, c_maxAge = None,
                  c_expires = None\<rparr>]) True 0 (HeaderList [''sessionid=abc123''])))"
proof -
  have s: "isSensitiveCookie ''sessionid''"
    by (simp add: isSensitiveCookie_def toLowerCase_def lower_char_def startsWith_def)
  show ?thesis
    using s sensitive_bare_cookie_findings
      [of "\<lparr>c_name = ''sessionid'', c_value = ''abc123'', c_domain = None, c_path = None,
                  c_secure = False, c_httpOnly = False, c_sameSite = None, c_maxAge = None,
                  c_expires = None\<rparr>" 0 "HeaderList [''sessionid=abc123'']"
          "\<lambda>h. [\<lparr>c_name = ''sessionid'', c_value = ''abc123'', c_domain = None, c_path = None,
                  c_secure = False, c_httpOnly = False, c_sameSite = None, c_maxAge = None,
                  c_expires = None\<rparr>]"]
    by (simp add: truthy_def)
qed

section \<open>Properties of the error classification\<close>

text \<open>
  Claim C6, as stated, has connection-refused failures marked not retryable. The
  classifier files \<^verbatim>\<open>ECONNREFUSED\<close> under the category \<^verbatim>\<open>'connection'\<close>, the same as
  \<^verbatim>\<open>ECONNRESET\<close>, and \<^verbatim>\<open>isRecoverableError\<close> returns true for that category.
\<close>

theorem connection_refused_recoverable_counterexample:
  "pe_category (processNetworkError
      \<lparr>err_code = Some ''ECONNREFUSED'', err_message = ''connect ECONNREFUSED 93.184.216.34:443'',
       err_response = None, err_request = True\<rparr>) = CatConnection \<and>
   isRecoverableError (processNetworkError
      \<lparr>err_code = Some ''ECONNREFUSED'', err_message = ''connect ECONNREFUSED 93.184.216.34:443'',
       err_response = None, err_request = True\<rparr>)"
  by (simp add: processNetworkError_def handleRequestError_def requestErrorCategory_def
      isRecoverableError_def toLowerCase_def lower_char_def startsWith_def)

text \<open>
  Claim C6, amended. A request failure without a response is marked recoverable exactly
  when it is not a DNS failure (code \<^verbatim>\<open>ENOTFOUND\<close> or \<^verbatim>\<open>getaddrinfo\<close> in the message) and
  it is connection-refused, connection-reset or a timeout (code \<^verbatim>\<open>ECONNREFUSED\<close>,
  \<^verbatim>\<open>ECONNRESET\<close>, \<^verbatim>\<open>ETIMEDOUT\<close>, or \<^verbatim>\<open>timeout\<close> in the message): refused, reset and
  timeout are all retryable. A failure with an HTTP response is marked recoverable exactly
  when its status is 408, 429, 502, 503 or 504.
\<close>

theorem isRecoverableError_classification:
  "(isRecoverableError (processNetworkError
       \<lparr>err_code = code, err_message = msg, err_response = None, err_request = True\<rparr>)
     \<longleftrightarrow> \<not> (code = Some ''ENOTFOUND'' \<or> str_includes (toLowerCase msg) ''getaddrinfo'') \<and>
         (code = Some ''ECONNREFUSED'' \<or> code = Some ''ECONNRESET'' \<or> code = Some ''ETIMEDOUT''
          \<or> str_includes (toLowerCase msg) ''timeout'')) \<and>
   (isRecoverableError (processNetworkError
       \<lparr>err_code = code, err_message = msg, err_response = Some status, err_request = rq\<rparr>)
     \<longleftrightarrow> status \<in> {408, 429, 502, 503, 504})"
proof (rule conjI)
  show "isRecoverableError (processNetworkError
       \<lparr>err_code = code, err_message = msg, err_response = None, err_request = True\<rparr>)
     \<longleftrightarrow> \<not> (code = Some ''ENOTFOUND'' \<or> str_includes (toLowerCase msg) ''getaddrinfo'') \<and>
         (code = Some ''ECONNREFUSED'' \<or> code = Some ''ECONNRESET'' \<or> code = Some ''ETIMEDOUT''
          \<or> str_includes (toLowerCase msg) ''timeout'')"
    by (simp add: processNetworkError_def handleRequestError_def requestErrorCategory_def
        isRecoverableError_def Let_def)
  show "isRecoverableError (processNetworkError
       \<lparr>err_code = code, err_message = msg, err_response = Some status, err_request = rq\<rparr>)
     \<longleftrightarrow> status \<in> {408, 429, 502, 503, 504}"
    by (auto simp add: processNetworkError_def handleHttpError_def isRecoverableError_def)
qed

theorem isRecoverableError_classification_witness:
  "isRecoverableError (processNetworkError
       \<lparr>err_code = Some ''ECONNRESET'', err_message = ''socket hang up'', err_response = None,
        err_request = True\<rparr>) \<and>
   \<not> isRecoverableError (processNetworkError
       \<lparr>err_code = Some ''ECONNRESET'', err_message = ''socket hang up'', err_response = Some 500,
        err_request = True\<rparr>)"
  using isRecoverableError_classification [of "Some ''ECONNRESET''" "''socket hang up''" 500 True]
  by (simp add: toLowerCase_def lower_char_def startsWith_def)

section \<open>Properties of the retry loop\<close>

lemma retry_events:
  "snd (makeRequestWithRetry axios) \<in> {[Request 1], [Request 1, Delay 2000, Request 2],
     [Request 1, Delay 2000, Request 2, Delay 3000, Request 3]}"
  by (simp add: makeRequestWithRetry_def Let_def split: attempt_outcome.splits)

lemma retry_stops:
  assumes "axios k = Threw e" and "err_response e = Some st"
    and "400 \<le> st" "st < 500" "st \<noteq> 408" "st \<noteq> 429"
    and "Request k \<in> set (snd (makeRequestWithRetry axios))"
  shows "Request (Suc k) \<notin> set (snd (makeRequestWithRetry axios))"
proof -
  have nr: "isNonRetryableError e"
    using assms by (simp add: isNonRetryableError_def)
  have k: "k = 1 \<or> k = 2 \<or> k = 3"
    using assms(7) retry_events [of axios] by auto
  then show ?thesis
    using assms(1) nr
    by (auto simp: makeRequestWithRetry_def Let_def split: attempt_outcome.splits)
qed

text \<open>
  Claim C8. Whatever the outcomes of the requests, the fetcher's trace is one of: a
  single request; a request, a 2000 ms sleep and a second request; or those followed by a
  3000 ms sleep and a third request. So it makes at most 3 attempts and sleeps
  \<open>attempt \<times> 1000\<close> ms before attempt 2 and attempt 3. And when attempt \<open>k\<close> fails with an
  HTTP response whose status is in 400..499 and is neither 408 nor 429, there is no
  attempt \<open>k + 1\<close>.
\<close>

theorem retry_policy:
  "snd (makeRequestWithRetry axios) \<in> {[Request 1], [Request 1, Delay 2000, Request 2],
     [Request 1, Delay 2000, Request 2, Delay 3000, Request 3]} \<and>
   (\<forall>k e st. axios k = Threw e \<and> err_response e = Some st \<and> 400 \<le> st \<and> st < 500
              \<and> st \<noteq> 408 \<and> st \<noteq> 429 \<and> Request k \<in> set (snd (makeRequestWithRetry axios))
      \<longrightarrow> Request (Suc k) \<notin> set (snd (makeRequestWithRetry axios)))"
  using retry_events retry_stops by blast

theorem retry_policy_witness:
  "(\<exists>e. example_axios 2 = Threw e \<and> err_response e = Some 404) \<and>
   Request 2 \<in> set (snd (makeRequestWithRetry example_axios)) \<and>
   Request (Suc 2) \<notin> set (snd (makeRequestWithRetry example_axios)) \<and>
   snd (makeRequestWithRetry example_axios) = [Request 1, Delay 2000, Request 2]"
proof -
  have evs: "snd (makeRequestWithRetry example_axios) = [Request 1, Delay 2000, Request 2]"
    by (simp add: makeRequestWithRetry_def example_axios_def isNonRetryableError_def)
  have e: "example_axios 2 = Threw \<lparr>err_code = None,
             err_message = ''Request failed with status code 404'',
             err_response = Some 404, err_request = True\<rparr>"
    by (simp add: example_axios_def)
  have "Request (Suc 2) \<notin> set (snd (makeRequestWithRetry example_axios))"
    using retry_policy [of example_axios, THEN conjunct2, rule_format, of 2 _ 404] e evs
    by simp
  then show ?thesis
    using e evs by simp
qed

section \<open>Properties of the certificate chain walk\<close>

lemma chainWalk_returns: "endsWithin st n a \<Longrightarrow> \<exists>r. chainWalk st a = Some r"
proof (induction n arbitrary: a)
  case 0
  then show ?case by (subst chainWalk.simps) (auto split: option.splits)
next
  case (Suc n)
  then show ?case by (subst chainWalk.simps) (auto split: option.splits)
qed

lemma calculateChainLength_returns:
  "endsWithin st n a \<Longrightarrow> \<exists>r. calculateChainLength st a c = Some r"
proof (induction n arbitrary: a c)
  case 0
  then show ?case by (subst calculateChainLength.simps) (auto split: option.splits)
next
  case (Suc n)
  then show ?case by (subst calculateChainLength.simps) (auto split: option.splits)
qed

lemma chainWalk_ends:
  assumes "chainWalk st a = Some r"
  shows "\<exists>n. endsWithin st n a"
proof (rule chainWalk.raw_induct
    [where P = "\<lambda>st a r. \<exists>n. endsWithin st n a" and st = st and current = a and y = r])
  show "chainWalk st a = Some r" by (rule assms)
next
  fix cw :: "cert_store \<Rightarrow> nat \<Rightarrow> nat option" and st current r
  assume IH: "\<And>st c y. cw st c = Some y \<Longrightarrow> \<exists>n. endsWithin st n c"
    and step: "(case issuerCertificate (st current) of None \<Rightarrow> Some current
                | Some i \<Rightarrow> if i \<noteq> current then cw st i else Some current) = Some r"
  show "\<exists>n. endsWithin st n current"
  proof (cases "issuerCertificate (st current)")
    case None
    then have "endsWithin st 0 current" by simp
    then show ?thesis ..
  next
    case (Some i)
    show ?thesis
    proof (cases "i = current")
      case True
      with Some have "endsWithin st 0 current" by simp
      then show ?thesis ..
    next
      case False
      with step Some have "cw st i = Some r" by simp
      then obtain n where "endsWithin st n i" using IH by blast
      with Some False have "endsWithin st (Suc n) current" by simp
      then show ?thesis ..
    qed
  qed
qed

lemma calculateChainLength_ends:
  assumes "calculateChainLength st a c = Some r"
  shows "\<exists>n. endsWithin st n a"
proof (rule calculateChainLength.raw_induct
    [where P = "\<lambda>st a c r. \<exists>n. endsWithin st n a" and st = st and cert = a and count = c and y = r])
  show "calculateChainLength st a c = Some r" by (rule assms)
next
  fix cl :: "cert_store \<Rightarrow> nat \<Rightarrow> nat \<Rightarrow> nat option" and st cert count r
  assume IH: "\<And>st c k y. cl st c k = Some y \<Longrightarrow> \<exists>n. endsWithin st n c"
    and step: "(case issuerCertificate (st cert) of None \<Rightarrow> Some count
                | Some i \<Rightarrow> if i \<noteq> cert then cl st i (count + 1) else Some count) = Some r"
  show "\<exists>n. endsWithin st n cert"
  proof (cases "issuerCertificate (st cert)")
    case None
    then have "endsWithin st 0 cert" by simp
    then show ?thesis ..
  next
    case (Some i)
    show ?thesis
    proof (cases "i = cert")
      case True
      with Some have "endsWithin st 0 cert" by simp
      then show ?thesis ..
    next
      case False
      with step Some have "cl st i (count + 1) = Some r" by simp
      then obtain n where "endsWithin st n i" using IH by blast
      with Some False have "endsWithin st (Suc n) cert" by simp
      then show ?thesis ..
    qed
  qed
qed

lemma cross_signed_never_ends:
  "\<not> endsWithin cross_signed n 0 \<and> \<not> endsWithin cross_signed n (Suc 0)"
  by (induction n) (simp_all add: cross_signed_def)

text \<open>
  Claim C7, as stated, has the chain walk bounded on every certificate graph, cycles of
  length greater than one included. Neither function has a depth bound, and the only
  stop test is pointer identity of a certificate with its own issuer object. On two
  objects that name each other as issuer, the loop of \<^verbatim>\<open>_isChainComplete\<close> never stops and
  the recursion of \<^verbatim>\<open>_calculateChainLength\<close> never returns a count.
\<close>

theorem chain_walk_cycle_counterexample:
  "isChainComplete cross_signed 0 = None \<and> calculateChainLength cross_signed 0 1 = None"
proof -
  have "chainWalk cross_signed 0 = None"
    using chainWalk_ends [of cross_signed 0] cross_signed_never_ends
    by (cases "chainWalk cross_signed 0") auto
  moreover have "calculateChainLength cross_signed 0 1 = None"
    using calculateChainLength_ends [of cross_signed 0 1] cross_signed_never_ends
    by (cases "calculateChainLength cross_signed 0 1") auto
  ultimately show ?thesis by (simp add: isChainComplete_def)
qed

text \<open>
  Claim C7, amended. The chain-completeness check and the chain-length computation
  return a value exactly when following the \<^verbatim>\<open>issuerCertificate\<close> pointers from the given
  certificate leads, after finitely many steps, to a certificate that has no issuer
  object or is its own issuer object. There is no depth bound.
\<close>

theorem chain_walk_returns_iff:
  "(isChainComplete st a \<noteq> None \<longleftrightarrow> (\<exists>n. endsWithin st n a)) \<and>
   (calculateChainLength st a 1 \<noteq> None \<longleftrightarrow> (\<exists>n. endsWithin st n a))"
proof -
  have "chainWalk st a \<noteq> None \<longleftrightarrow> (\<exists>n. endsWithin st n a)"
    using chainWalk_ends [of st a] chainWalk_returns [of st _ a] by blast
  moreover have "calculateChainLength st a 1 \<noteq> None \<longleftrightarrow> (\<exists>n. endsWithin st n a)"
    using calculateChainLength_ends [of st a 1] calculateChainLength_returns [of st _ a 1]
    by blast
  ultimately show ?thesis by (simp add: isChainComplete_def)
qed

theorem chain_walk_returns_iff_witness:
  "endsWithin rooted_chain 2 0 \<and> isChainComplete rooted_chain 0 = Some True \<and>
   calculateChainLength rooted_chain 0 1 = Some 3"
proof -
  have e: "endsWithin rooted_chain 2 0"
    by (simp add: rooted_chain_def eval_nat_numeral)
  have v: "isChainComplete rooted_chain 0 = Some True \<and>
           calculateChainLength rooted_chain 0 1 = Some 3"
    by (simp add: isChainComplete_def chainWalk.simps [of rooted_chain]
        calculateChainLength.simps [of rooted_chain] rooted_chain_def)
  from e have "\<exists>n. endsWithin rooted_chain n 0" ..
  with chain_walk_returns_iff [of rooted_chain 0]
  have "isChainComplete rooted_chain 0 \<noteq> None" by simp
  with e v show ?thesis by simp
qed

section \<open>Properties of the URL validation\<close>

lemmas ip_defs = isPrivateIP_def REGEX_IPV4_def is_octet_def is_digit_def Number_def digit_value_def

lemmas host_defs = isValidHostname_def isIP_def REGEX_IPV4_def REGEX_IPV6_def is_label_def
  is_alnum_def is_alpha_def is_digit_def is_octet_def

lemma isPrivateIP_examples:
  "isPrivateIP ''10.0.0.1''" "isPrivateIP ''172.31.0.1''" "\<not> isPrivateIP ''172.32.0.1''"
  "isPrivateIP ''127.0.0.1''" "isPrivateIP ''0.0.0.0''" "\<not> isPrivateIP ''8.8.8.8''"
  by (simp_all add: ip_defs)

text \<open>
  The two parts of claim C5 that hold. \<^verbatim>\<open>http://192.168.1.1\<close> is rejected, both of its
  candidates carrying the private-address error, whatever DNS says. And \<^verbatim>\<open>example.com\<close>
  is accepted as \<^verbatim>\<open>https://example.com\<close> when its lookup resolves.
\<close>

lemma private_ip_rejected:
  assumes "parse ''https://192.168.1.1'' = Some \<lparr>u_protocol = ''https:'', u_hostname = ''192.168.1.1'', u_port = p1, u_pathname = q1, u_search = r1\<rparr>"
    and "parse ''http://192.168.1.1'' = Some \<lparr>u_protocol = ''http:'', u_hostname = ''192.168.1.1'', u_port = p2, u_pathname = q2, u_search = r2\<rparr>"
  shows "\<exists>es1 es2. validateAndNormalize parse dns ''http://192.168.1.1'' =
           Invalid [(''https://192.168.1.1'', es1), (''http://192.168.1.1'', es2)]
         \<and> PrivateIPNotAllowed \<in> set es1 \<and> PrivateIPNotAllowed \<in> set es2"
proof -
  have priv: "isPrivateIP ''192.168.1.1''" by (simp add: ip_defs)
  have c: "cleanInput ''http://192.168.1.1'' = Some ''http://192.168.1.1''"
    by (simp add: cleanInput_def trim_def is_space_def toLowerCase_def lower_char_def)
  have g: "generateUrlVariations ''http://192.168.1.1'' = [''https://192.168.1.1'', ''http://192.168.1.1'']"
    by (simp add: generateUrlVariations_def startsWith_def)
  show ?thesis
    using priv assms by (simp add: validateAndNormalize_def c g validateSingleUrl_def Let_def)
qed

lemma localhost_not_private: "\<not> isPrivateIP ''localhost''"
  by (simp add: isPrivateIP_def REGEX_IPV4_def)

lemma localhost_accepted:
  assumes "parse ''https://localhost'' = Some \<lparr>u_protocol = ''https:'', u_hostname = ''localhost'', u_port = [], u_pathname = ''/'', u_search = []\<rparr>"
    and "dns ''localhost'' = None"
  shows "validateAndNormalize parse dns ''http://localhost'' =
     Valid \<lparr>v_url = ''https://localhost'', v_normalizedUrl = ''https://localhost'',
       v_protocol = ''https:'', v_hostname = ''localhost'', v_port = Some ''443''\<rparr> True"
proof -
  have h: "isValidHostname ''localhost''" by (simp add: host_defs)
  have c: "cleanInput ''http://localhost'' = Some ''http://localhost''"
    by (simp add: cleanInput_def trim_def is_space_def toLowerCase_def lower_char_def)
  have g: "generateUrlVariations ''http://localhost'' = [''https://localhost'', ''http://localhost'']"
    by (simp add: generateUrlVariations_def startsWith_def)
  show ?thesis
    using h localhost_not_private assms
    by (simp add: validateAndNormalize_def c g validateSingleUrl_def Let_def normalizeUrl_def
        DEFAULT_PORTS_def)
qed

lemma example_com_accepted:
  assumes "parse ''https://example.com'' = Some \<lparr>u_protocol = ''https:'', u_hostname = ''example.com'', u_port = [], u_pathname = ''/'', u_search = []\<rparr>"
    and "dns ''example.com'' = None"
  shows "validateAndNormalize parse dns ''example.com'' =
     Valid \<lparr>v_url = ''https://example.com'', v_normalizedUrl = ''https://example.com'',
       v_protocol = ''https:'', v_hostname = ''example.com'', v_port = Some ''443''\<rparr> True"
proof -
  have h: "isValidHostname ''example.com''" by (simp add: host_defs)
  have p: "\<not> isPrivateIP ''example.com''" by (simp add: isPrivateIP_def REGEX_IPV4_def)
  have c: "cleanInput ''example.com'' = Some ''example.com''"
    by (simp add: cleanInput_def trim_def is_space_def toLowerCase_def lower_char_def)
  have g: "generateUrlVariations ''example.com'' = [''https://example.com'', ''http://example.com'',
      ''https://www.example.com'', ''http://www.example.com'']"
    by (simp add: generateUrlVariations_def startsWith_def)
  show ?thesis
    using h p assms
    by (simp add: validateAndNormalize_def c g validateSingleUrl_def Let_def normalizeUrl_def
        DEFAULT_PORTS_def)
qed

lemma never_private_error_for_localhost:
  assumes "parse u = Some pu" and "u_hostname pu = ''localhost''"
  shows "validateSingleUrl parse dns u = Inl es \<Longrightarrow> PrivateIPNotAllowed \<notin> set es"
  using assms localhost_not_private
  by (auto simp: validateSingleUrl_def Let_def split: if_splits option.splits)

text \<open>
  Claim C5 also says that \<^verbatim>\<open>http://localhost\<close> is rejected with a private-address error.
  \<^verbatim>\<open>_isPrivateIP\<close> looks at IPv4 literals only, although its 127.x range is commented
  \<^verbatim>\<open>// localhost\<close>: the name \<^verbatim>\<open>localhost\<close> is not an IPv4 literal, so the check passes, and
  when the lookup of \<^verbatim>\<open>localhost\<close> resolves the validator accepts the input and returns
  \<^verbatim>\<open>https://localhost\<close>.
\<close>

theorem validateAndNormalize_localhost_accepted:
  "\<not> isPrivateIP ''localhost'' \<and>
   validateAndNormalize url_table (\<lambda>h. None) ''http://localhost'' =
     Valid \<lparr>v_url = ''https://localhost'', v_normalizedUrl = ''https://localhost'',
       v_protocol = ''https:'', v_hostname = ''localhost'', v_port = Some ''443''\<rparr> True"
  using localhost_not_private localhost_accepted [of url_table "\<lambda>h. None"]
  by (simp add: url_table_def)

end
